theory Spec2Isabelle
  imports Main "HOL-Library.AList"
begin

section \<open>JavaScript values\<close>

text \<open>
  The values that flow through \<^verbatim>\<open>premint-api.ts\<close>. A \<^verbatim>\<open>number\<close> is modelled by the
  integer it holds (uids, versions, basis points, HTTP status codes: integers that a
  double holds exactly and prints in decimal), a \<^verbatim>\<open>bigint\<close> by an unbounded integer. An
  object is the list of its properties in insertion order, each key once; a property is
  read with \<open>getProp\<close>, and a missing property reads as \<^verbatim>\<open>undefined\<close>. Arrays do not occur
  in the data of this file. A string is a list of code units below 256.
\<close>

datatype jsval =
    JUndefined
  | JNull
  | JBool bool
  | JNum int
  | JBigInt int
  | JStr string
  | JObj "(string \<times> jsval) list"

type_synonym jsobj = "(string \<times> jsval) list"

datatype error =
    Error string        \<comment> \<open>\<^verbatim>\<open>throw new Error(message)\<close> of this file\<close>
  | TypeError           \<comment> \<open>raised by the language: property of undefined, BigInt of undefined, stringify of a bigint\<close>
  | SyntaxError         \<comment> \<open>\<^verbatim>\<open>BigInt(s)\<close> on a string that is no integer literal\<close>
  | Rejected string     \<comment> \<open>a rejected promise of a collaborator: network, wallet, chain\<close>

definition ebind :: "error + 'a \<Rightarrow> ('a \<Rightarrow> error + 'b) \<Rightarrow> error + 'b" where
  "ebind m f = (case m of Inl e \<Rightarrow> Inl e | Inr x \<Rightarrow> f x)"

definition getProp :: "jsobj \<Rightarrow> string \<Rightarrow> jsval" where
  "getProp obj k = (case map_of obj k of None \<Rightarrow> JUndefined | Some v \<Rightarrow> v)"

text \<open>\<^verbatim>\<open>!v\<close> is true exactly for the falsy values.\<close>

fun truthy :: "jsval \<Rightarrow> bool" where
  "truthy JUndefined = False"
| "truthy JNull = False"
| "truthy (JBool b) = b"
| "truthy (JNum n) = (n \<noteq> 0)"
| "truthy (JBigInt n) = (n \<noteq> 0)"
| "truthy (JStr s) = (s \<noteq> [])"
| "truthy (JObj ps) = True"

text \<open>
  An object literal \<^verbatim>\<open>{ ...a, k: v, ...b }\<close>: its members are applied from left to
  right, a later member overwriting the value of a key that is already there (in place)
  and appending a new key.
\<close>

datatype member = Spread jsobj | Prop string jsval

fun define_member :: "member \<Rightarrow> jsobj \<Rightarrow> jsobj" where
  "define_member (Prop k v) obj = AList.update k v obj"
| "define_member (Spread src) obj = fold (\<lambda>(k, v). AList.update k v) src obj"

definition object_literal :: "member list \<Rightarrow> jsobj" where
  "object_literal ms = fold define_member ms []"

section \<open>Strings and integers\<close>

definition digit_char :: "nat \<Rightarrow> char" where
  "digit_char d = ''0123456789'' ! d"

fun decimal :: "nat \<Rightarrow> string" where
  "decimal n = (if n < 10 then [digit_char n] else decimal (n div 10) @ [digit_char (n mod 10)])"

declare decimal.simps [simp del]

text \<open>\<^verbatim>\<open>n.toString()\<close> of a bigint, and of a number that holds an integer.\<close>

definition int_toString :: "int \<Rightarrow> string" where
  "int_toString n = (if n < 0 then CHR ''-'' # decimal (nat (- n)) else decimal (nat n))"

text \<open>The string conversion of a template literal \<^verbatim>\<open>`${v}`\<close>.\<close>

fun ToString :: "jsval \<Rightarrow> string" where
  "ToString JUndefined = ''undefined''"
| "ToString JNull = ''null''"
| "ToString (JBool b) = (if b then ''true'' else ''false'')"
| "ToString (JNum n) = int_toString n"
| "ToString (JBigInt n) = int_toString n"
| "ToString (JStr s) = s"
| "ToString (JObj ps) = ''[object Object]''"

text \<open>The method call \<^verbatim>\<open>v.toString()\<close>: it throws on \<^verbatim>\<open>undefined\<close> and \<^verbatim>\<open>null\<close>.\<close>

fun toString :: "jsval \<Rightarrow> error + string" where
  "toString JUndefined = Inl TypeError"
| "toString JNull = Inl TypeError"
| "toString v = Inr (ToString v)"

text \<open>
  \<^verbatim>\<open>BigInt(v)\<close>. A string is trimmed of white space; the empty string is \<open>0\<close>; a decimal
  literal may carry a sign; a literal with prefix \<^verbatim>\<open>0x\<close>, \<^verbatim>\<open>0o\<close> or \<^verbatim>\<open>0b\<close> may not.
\<close>

definition is_white_space :: "char \<Rightarrow> bool" where
  "is_white_space c = (of_char c \<in> {9, 10, 11, 12, 13, 32, 160 :: nat})"

definition trim :: "string \<Rightarrow> string" where
  "trim s = rev (dropWhile is_white_space (rev (dropWhile is_white_space s)))"

definition digit_val :: "nat \<Rightarrow> char \<Rightarrow> nat option" where
  "digit_val radix c =
     (let k = of_char c :: nat;
          v = (if 48 \<le> k \<and> k \<le> 57 then Some (k - 48)
               else if 97 \<le> k \<and> k \<le> 122 then Some (k - 87)
               else if 65 \<le> k \<and> k \<le> 90 then Some (k - 55)
               else None)
      in case v of None \<Rightarrow> None | Some d \<Rightarrow> if d < radix then Some d else None)"

fun parse_digits :: "nat \<Rightarrow> string \<Rightarrow> nat \<Rightarrow> nat option" where
  "parse_digits radix [] acc = Some acc"
| "parse_digits radix (c # cs) acc =
     (case digit_val radix c of
        None \<Rightarrow> None
      | Some d \<Rightarrow> parse_digits radix cs (acc * radix + d))"

definition parse_nat :: "nat \<Rightarrow> string \<Rightarrow> nat option" where
  "parse_nat radix s = (if s = [] then None else parse_digits radix s 0)"

definition StringToBigInt :: "string \<Rightarrow> int option" where
  "StringToBigInt str =
     (let s = trim str in
      if s = [] then Some 0
      else if hd s = CHR ''-'' then map_option (\<lambda>n. - int n) (parse_nat 10 (tl s))
      else if hd s = CHR ''+'' then map_option int (parse_nat 10 (tl s))
      else if take 2 s \<in> {''0x'', ''0X''} then map_option int (parse_nat 16 (drop 2 s))
      else if take 2 s \<in> {''0o'', ''0O''} then map_option int (parse_nat 8 (drop 2 s))
      else if take 2 s \<in> {''0b'', ''0B''} then map_option int (parse_nat 2 (drop 2 s))
      else map_option int (parse_nat 10 s))"

fun BigInt :: "jsval \<Rightarrow> error + int" where
  "BigInt JUndefined = Inl TypeError"
| "BigInt JNull = Inl TypeError"
| "BigInt (JBool b) = Inr (if b then 1 else 0)"
| "BigInt (JNum n) = Inr n"
| "BigInt (JBigInt n) = Inr n"
| "BigInt (JStr s) = (case StringToBigInt s of None \<Rightarrow> Inl SyntaxError | Some n \<Rightarrow> Inr n)"
| "BigInt (JObj ps) = Inl SyntaxError"

text \<open>
  \<^verbatim>\<open>s.toLowerCase()\<close> on code units below 256: the letters A to Z and the upper-case
  letters of Latin-1 (all of \<^verbatim>\<open>0xC0\<close> to \<^verbatim>\<open>0xDE\<close> but the multiplication sign) move up
  by 32; every other code unit stays.
\<close>

definition is_upper_case :: "char \<Rightarrow> bool" where
  "is_upper_case c =
     (let k = of_char c :: nat
      in (65 \<le> k \<and> k \<le> 90) \<or> (192 \<le> k \<and> k \<le> 222 \<and> k \<noteq> 215))"

definition lower_char :: "char \<Rightarrow> char" where
  "lower_char c = (if is_upper_case c then char_of (of_char c + 32 :: nat) else c)"

definition toLowerCase :: "string \<Rightarrow> string" where
  "toLowerCase s = map lower_char s"

section \<open>Network configuration\<close>

record NetworkConfig =
  chainId :: int
  zoraPathChainName :: string
  zoraBackendChainName :: string
  isTestnet :: bool

text \<open>The enum \<^verbatim>\<open>BackendChainNames\<close>.\<close>

definition ZORA_MAINNET :: string where
  "ZORA_MAINNET = ''ZORA-MAINNET''"

definition ZORA_TESTNET :: string where
  "ZORA_TESTNET = ''ZORA-TESTNET''"

definition ZORA_API_BASE :: string where
  "ZORA_API_BASE = ''https://api.zora.co/premint/''"

definition ZORA_PREMINT_API_BASE :: string where
  "ZORA_PREMINT_API_BASE = ''https://api.zora.co/premint/''"

text \<open>
  The chain descriptors \<^verbatim>\<open>zora\<close>, \<^verbatim>\<open>zoraTestnet\<close> and \<^verbatim>\<open>foundry\<close> are imported from the
  library \<^verbatim>\<open>viem/chains\<close>; the file reads only their \<^verbatim>\<open>id\<close>. These are the library's
  values (the file itself indexes the address tables of the Zora test network by \<open>999\<close>).
\<close>

record Chain =
  chain_id :: int

definition zora :: Chain where
  "zora = \<lparr>chain_id = 7777777\<rparr>"

definition zoraTestnet :: Chain where
  "zoraTestnet = \<lparr>chain_id = 999\<rparr>"

definition foundry :: Chain where
  "foundry = \<lparr>chain_id = 31337\<rparr>"

definition networkConfigByChain :: "int \<rightharpoonup> NetworkConfig" where
  "networkConfigByChain =
     [chain_id zora \<mapsto>
        \<lparr>chainId = chain_id zora, zoraPathChainName = ''zora'',
         zoraBackendChainName = ZORA_MAINNET, isTestnet = False\<rparr>,
      chain_id zoraTestnet \<mapsto>
        \<lparr>chainId = chain_id zora, zoraPathChainName = ''zora'',
         zoraBackendChainName = ZORA_TESTNET, isTestnet = True\<rparr>,
      chain_id foundry \<mapsto>
        \<lparr>chainId = chain_id foundry, zoraPathChainName = ''zora'',
         zoraBackendChainName = ZORA_TESTNET, isTestnet = True\<rparr>]"

section \<open>Token configuration and the wire format\<close>

definition OPEN_EDITION_MINT_SIZE :: string where
  "OPEN_EDITION_MINT_SIZE = ''18446744073709551615''"

text \<open>
  \<^verbatim>\<open>DefaultMintArguments\<close>, with the two \<^verbatim>\<open>BigInt(...)\<close> calls of the module evaluated
  (lemma \<open>literal_BigInts\<close> below).
\<close>

definition DefaultMintArguments :: jsobj where
  "DefaultMintArguments =
     [(''maxSupply'', JBigInt 18446744073709551615),
      (''maxTokensPerAddress'', JBigInt 0),
      (''pricePerToken'', JBigInt 0),
      (''mintDuration'', JBigInt (60 * 60 * 24 * 7)),
      (''mintStart'', JBigInt 0),
      (''royaltyMintSchedule'', JNum 0),
      (''royaltyBPS'', JNum 1000)]"

record Collection =
  contractAdmin :: string
  contractURI :: string
  contractName :: string

text \<open>
  \<^verbatim>\<open>PremintConfig\<close> and \<^verbatim>\<open>PremintResponse["premint"]\<close> have one shape; they differ in
  the values of five properties of \<open>tokenConfig\<close>: bigints in the first, strings in the
  second.
\<close>

record PremintConfig =
  tokenConfig :: jsobj
  uid :: jsval
  version :: int
  deleted :: jsval

record PremintResponse =
  collection :: Collection
  premint :: PremintConfig
  chain_name :: string
  signature :: string

definition convertPremint :: "PremintConfig \<Rightarrow> error + PremintConfig" where
  "convertPremint p =
     ebind (BigInt (getProp (tokenConfig p) ''maxSupply'')) (\<lambda>maxSupply.
     ebind (BigInt (getProp (tokenConfig p) ''pricePerToken'')) (\<lambda>pricePerToken.
     ebind (BigInt (getProp (tokenConfig p) ''mintStart'')) (\<lambda>mintStart.
     ebind (BigInt (getProp (tokenConfig p) ''mintDuration'')) (\<lambda>mintDuration.
     ebind (BigInt (getProp (tokenConfig p) ''maxTokensPerAddress'')) (\<lambda>maxTokensPerAddress.
     Inr (p\<lparr>tokenConfig := object_literal
       [Spread (tokenConfig p),
        Prop ''maxSupply'' (JBigInt maxSupply),
        Prop ''pricePerToken'' (JBigInt pricePerToken),
        Prop ''mintStart'' (JBigInt mintStart),
        Prop ''mintDuration'' (JBigInt mintDuration),
        Prop ''maxTokensPerAddress'' (JBigInt maxTokensPerAddress)]\<rparr>))))))"

definition encodePremintForAPI :: "PremintConfig \<Rightarrow> error + PremintConfig" where
  "encodePremintForAPI p =
     ebind (toString (getProp (tokenConfig p) ''maxSupply'')) (\<lambda>maxSupply.
     ebind (toString (getProp (tokenConfig p) ''pricePerToken'')) (\<lambda>pricePerToken.
     ebind (toString (getProp (tokenConfig p) ''mintStart'')) (\<lambda>mintStart.
     ebind (toString (getProp (tokenConfig p) ''mintDuration'')) (\<lambda>mintDuration.
     ebind (toString (getProp (tokenConfig p) ''maxTokensPerAddress'')) (\<lambda>maxTokensPerAddress.
     Inr (p\<lparr>tokenConfig := object_literal
       [Spread (tokenConfig p),
        Prop ''maxSupply'' (JStr maxSupply),
        Prop ''pricePerToken'' (JStr pricePerToken),
        Prop ''mintStart'' (JStr mintStart),
        Prop ''mintDuration'' (JStr mintDuration),
        Prop ''maxTokensPerAddress'' (JStr maxTokensPerAddress)]\<rparr>))))))"

section \<open>Collaborators and effects\<close>

text \<open>
  The generated tables of \<^verbatim>\<open>./wagmiGenerated\<close>, from a chain id to the address deployed
  there, are parameters of the model: the file that declares them is not part of the
  sources at hand.
\<close>

record wagmiGenerated =
  zoraCreator1155PremintExecutorImplAddress :: "int \<rightharpoonup> string"
  zoraCreatorFixedPriceSaleStrategyAddress :: "int \<rightharpoonup> string"

text \<open>The argument object of \<^verbatim>\<open>preminterTypedDataDefinition\<close> (of \<^verbatim>\<open>./preminter\<close>).\<close>

record TypedDataArgs =
  typed_verifyingContract :: string
  typed_premintConfig :: PremintConfig
  typed_chainId :: int

text \<open>The parameter object of the \<^verbatim>\<open>premint\<close> call given to simulation and to the wallet.\<close>

record ContractCall =
  call_account :: "string option"
  call_value :: int
  call_chain :: "Chain option"
  call_functionName :: string
  call_address :: jsval
  call_args :: "Collection \<times> PremintConfig \<times> string \<times> int \<times> string"

datatype request =
    GET string                    \<comment> \<open>\<^verbatim>\<open>fetch(path, {method: "GET"})\<close>\<close>
  | POST string PremintResponse   \<comment> \<open>\<^verbatim>\<open>fetch(path, {method: "POST", headers, body: JSON.stringify(data)})\<close>\<close>

record response =
  status :: int
  json :: "error + jsval"   \<comment> \<open>what \<^verbatim>\<open>response.json()\<close> settles to\<close>

record PublicClient =
  readContract_getContractAddress :: "jsval \<Rightarrow> Collection \<Rightarrow> error + string"
  readContract_isValidSignature ::
    "jsval \<Rightarrow> Collection \<Rightarrow> PremintConfig \<Rightarrow> string \<Rightarrow> error + bool \<times> string \<times> string"
  simulateContract :: "ContractCall \<Rightarrow> error + ContractCall"

record WalletClient =
  account :: "string option"
  signTypedData :: "string \<Rightarrow> TypedDataArgs \<Rightarrow> error + string"
  writeContract :: "ContractCall \<Rightarrow> error + string"

text \<open>
  The global \<^verbatim>\<open>fetch\<close> is a parameter \<open>fetch\<close> of every operation that calls the registry,
  of type \<open>request \<Rightarrow> error + response\<close>; viem's \<^verbatim>\<open>createPublicClient\<close> (called with the
  instance's chain and the default transport) is a parameter of type
  \<open>Chain \<Rightarrow> PublicClient\<close>.
\<close>

text \<open>Every call that leaves the process is recorded, in order.\<close>

datatype event =
    Fetch request
  | ReadGetContractAddress jsval Collection
  | ReadIsValidSignature jsval Collection PremintConfig string
  | SignTypedData string TypedDataArgs
  | SimulateContract ContractCall
  | WriteContract ContractCall

type_synonym 'a io = "event list \<times> (error + 'a)"

definition io_return :: "'a \<Rightarrow> 'a io" where
  "io_return x = ([], Inr x)"

definition io_throw :: "error \<Rightarrow> 'a io" where
  "io_throw e = ([], Inl e)"

definition io_lift :: "error + 'a \<Rightarrow> 'a io" where
  "io_lift r = ([], r)"

definition await :: "event \<Rightarrow> error + 'a \<Rightarrow> 'a io" where
  "await ev r = ([ev], r)"

definition io_bind :: "'a io \<Rightarrow> ('a \<Rightarrow> 'b io) \<Rightarrow> 'b io" where
  "io_bind m f =
     (case m of
        (t, Inl e) \<Rightarrow> (t, Inl e)
      | (t, Inr x) \<Rightarrow> (case f x of (t', r) \<Rightarrow> (t @ t', r)))"


fun is_post :: "event \<Rightarrow> bool" where
  "is_post (Fetch (POST path data)) = True"
| "is_post ev = False"

fun is_verification :: "event \<Rightarrow> bool" where
  "is_verification (ReadIsValidSignature address c p s) = True"
| "is_verification ev = False"

text \<open>\<^verbatim>\<open>JSON.stringify\<close> throws a TypeError on a bigint, wherever it stands in the data.\<close>

fun has_bigint :: "jsval \<Rightarrow> bool" where
  "has_bigint (JBigInt n) = True"
| "has_bigint (JObj ps) = list_ex (\<lambda>p. has_bigint (snd p)) ps"
| "has_bigint v = False"

definition stringifiable :: "PremintResponse \<Rightarrow> bool" where
  "stringifiable data =
     (\<not> has_bigint (JObj (tokenConfig (premint data))) \<and>
      \<not> has_bigint (uid (premint data)) \<and>
      \<not> has_bigint (deleted (premint data)))"

section \<open>The class PreminterAPI\<close>

record PreminterAPI =
  network :: NetworkConfig
  chain :: Chain
  rewardPerToken :: int

definition PreminterAPI :: "Chain \<Rightarrow> error + PreminterAPI" where
  "PreminterAPI c =
     (case networkConfigByChain (chain_id c) of
        None \<Rightarrow> Inl (Error (''Not configured for chain '' @ int_toString (chain_id c)))
      | Some networkConfig \<Rightarrow>
          Inr \<lparr>network = networkConfig, chain = c, rewardPerToken = 777000000000000\<rparr>)"

definition address_at :: "(int \<rightharpoonup> string) \<Rightarrow> int \<Rightarrow> jsval" where
  "address_at table k = (case table k of None \<Rightarrow> JUndefined | Some a \<Rightarrow> JStr a)"

definition getExecutorAddress :: "wagmiGenerated \<Rightarrow> PreminterAPI \<Rightarrow> jsval" where
  "getExecutorAddress gen this = address_at (zoraCreator1155PremintExecutorImplAddress gen) 999"

definition getFixedPriceMinterAddress :: "wagmiGenerated \<Rightarrow> PreminterAPI \<Rightarrow> jsval" where
  "getFixedPriceMinterAddress gen this = address_at (zoraCreatorFixedPriceSaleStrategyAddress gen) 999"

definition get :: "(request \<Rightarrow> error + response) \<Rightarrow> string \<Rightarrow> jsval io" where
  "get fetch path =
     io_bind (await (Fetch (GET path)) (fetch (GET path))) (\<lambda>response.
     io_lift (json response))"

definition post ::
  "(request \<Rightarrow> error + response) \<Rightarrow> string \<Rightarrow> PremintResponse \<Rightarrow> jsval io"
where
  "post fetch path data =
     (if \<not> stringifiable data then io_throw TypeError
      else
        io_bind (await (Fetch (POST path data)) (fetch (POST path data))) (\<lambda>response.
        if status response \<noteq> 200
        then io_throw (Error (''Bad response: '' @ int_toString (status response)))
        else io_lift (json response)))"

text \<open>\<^verbatim>\<open>uidResponse["next_uid"]\<close> on the parsed body of the response.\<close>

fun next_uid_of :: "jsval \<Rightarrow> error + jsval" where
  "next_uid_of JUndefined = Inl TypeError"
| "next_uid_of JNull = Inl TypeError"
| "next_uid_of (JObj ps) = Inr (getProp ps ''next_uid'')"
| "next_uid_of v = Inr JUndefined"

text \<open>\<^verbatim>\<open>executionSettings?.k\<close>.\<close>

definition optional_prop :: "jsobj option \<Rightarrow> string \<Rightarrow> jsval" where
  "optional_prop obj k = (case obj of None \<Rightarrow> JUndefined | Some ps \<Rightarrow> getProp ps k)"

text \<open>The local constant \<^verbatim>\<open>tokenConfig\<close> of \<^verbatim>\<open>createPremint\<close>.\<close>

definition createPremint_tokenConfig ::
  "wagmiGenerated \<Rightarrow> PreminterAPI \<Rightarrow> string \<Rightarrow> jsobj \<Rightarrow> jsobj"
where
  "createPremint_tokenConfig gen this account_arg mint =
     object_literal
       [Spread DefaultMintArguments,
        Prop ''fixedPriceMinter'' (getFixedPriceMinterAddress gen this),
        Prop ''royaltyRecipient'' (JStr account_arg),
        Spread mint]"

text \<open>
  \<^verbatim>\<open>createPremint\<close>, lines 215 to 227: the uid is the explicit one when that is truthy,
  else the \<^verbatim>\<open>next_uid\<close> of the registry; a uid that is still falsy is an error.
\<close>

definition createPremint_uid ::
  "(request \<Rightarrow> error + response) \<Rightarrow> PreminterAPI \<Rightarrow> string \<Rightarrow> jsobj option \<Rightarrow> jsval io"
where
  "createPremint_uid fetch this newContractAddress executionSettings =
     (let uid0 = optional_prop executionSettings ''uid'' in
      io_bind
        (if \<not> truthy uid0
         then io_bind
                (get fetch
                   (ZORA_API_BASE @ ''signature/'' @ zoraBackendChainName (network this) @ ''/''
                      @ toLowerCase newContractAddress @ ''/next_uid''))
                (\<lambda>uidResponse. io_lift (next_uid_of uidResponse))
         else io_return uid0)
        (\<lambda>uid.
           if \<not> truthy uid then io_throw (Error ''UID is missing but required'')
           else io_return uid))"

text \<open>\<^verbatim>\<open>createPremint\<close>, lines 247 to 257: the optional check of the signature.\<close>

definition createPremint_verify ::
  "PublicClient \<Rightarrow> jsval \<Rightarrow> Collection \<Rightarrow> PremintConfig \<Rightarrow> string \<Rightarrow> bool \<Rightarrow> unit io"
where
  "createPremint_verify publicClient executor collection_arg premintConfig_arg signature_arg
     checkSignature =
     (if checkSignature
      then io_bind
             (await (ReadIsValidSignature executor collection_arg premintConfig_arg signature_arg)
                (readContract_isValidSignature publicClient executor collection_arg
                   premintConfig_arg signature_arg))
             (\<lambda>(isValidSignature, contractAddress, recoveredSigner).
                if \<not> isValidSignature then io_throw (Error ''Invalid signature'')
                else io_return ())
      else io_return ())"

text \<open>\<^verbatim>\<open>createPremint\<close>, lines 259 to 266: the submission to the registry.\<close>

definition createPremint_submit ::
  "(request \<Rightarrow> error + response) \<Rightarrow> PreminterAPI \<Rightarrow> Collection \<Rightarrow> PremintConfig \<Rightarrow> string \<Rightarrow>
   jsval io"
where
  "createPremint_submit fetch this collection_arg premintConfig_arg signature_arg =
     io_bind (io_lift (encodePremintForAPI premintConfig_arg)) (\<lambda>encoded.
     let apiData = \<lparr>collection = collection_arg, premint = encoded,
                      chain_name = zoraBackendChainName (network this), signature = signature_arg\<rparr>
     in post fetch (ZORA_API_BASE @ ''signature'') apiData)"

record createPremintResult =
  url :: string
  result_uid :: jsval
  newContractAddress :: string
  result_premint :: jsval

definition createPremint ::
  "(request \<Rightarrow> error + response) \<Rightarrow> (Chain \<Rightarrow> PublicClient) \<Rightarrow> wagmiGenerated \<Rightarrow> PreminterAPI \<Rightarrow>
   string \<Rightarrow> Collection \<Rightarrow> jsobj \<Rightarrow> PublicClient option \<Rightarrow> WalletClient \<Rightarrow> jsobj option \<Rightarrow>
   bool option \<Rightarrow> createPremintResult io"
where
  "createPremint fetch createPublicClient gen this account_arg collection_arg mint publicClient_arg
     walletClient executionSettings checkSignature_arg =
   (let checkSignature = (case checkSignature_arg of None \<Rightarrow> True | Some b \<Rightarrow> b);
        publicClient =
          (case publicClient_arg of None \<Rightarrow> createPublicClient (chain this) | Some c \<Rightarrow> c)
    in
    io_bind
      (await (ReadGetContractAddress (getExecutorAddress gen this) collection_arg)
         (readContract_getContractAddress publicClient (getExecutorAddress gen this) collection_arg))
      (\<lambda>newContractAddress.
    let tokenConfig = createPremint_tokenConfig gen this account_arg mint in
    io_bind (createPremint_uid fetch this newContractAddress executionSettings) (\<lambda>uid.
    let deleted0 = optional_prop executionSettings ''deleted'';
        deleted = (if truthy deleted0 then deleted0 else JBool False);
        premintConfig = \<lparr>tokenConfig = tokenConfig, uid = uid, version = 1, deleted = deleted\<rparr>;
        typedData = \<lparr>typed_verifyingContract = newContractAddress,
                      typed_premintConfig = premintConfig,
                      typed_chainId = chain_id (chain this)\<rparr>
    in
    io_bind
      (await (SignTypedData account_arg typedData)
         (signTypedData walletClient account_arg typedData))
      (\<lambda>signature.
    io_bind
      (createPremint_verify publicClient (getExecutorAddress gen this) collection_arg premintConfig
         signature checkSignature)
      (\<lambda>_.
    io_bind (createPremint_submit fetch this collection_arg premintConfig signature) (\<lambda>premint.
    io_return
      \<lparr>url = ''https://'' @ (if isTestnet (network this) then ''testnet.'' else [])
               @ ''zora.co/collect:'' @ zoraPathChainName (network this) @ '':''
               @ newContractAddress @ ''/premint-'' @ ToString uid,
       result_uid = uid,
       newContractAddress = newContractAddress,
       result_premint = premint\<rparr>))))))"

definition getPremintData ::
  "(request \<Rightarrow> error + response) \<Rightarrow> PreminterAPI \<Rightarrow> string \<Rightarrow> int \<Rightarrow> jsval io"
where
  "getPremintData fetch this address uid_arg =
     get fetch (ZORA_PREMINT_API_BASE @ ''signature/'' @ zoraBackendChainName (network this) @ ''/''
              @ address @ ''/'' @ int_toString uid_arg)"

definition isValidSignature ::
  "wagmiGenerated \<Rightarrow> PreminterAPI \<Rightarrow> PremintResponse \<Rightarrow> PublicClient \<Rightarrow>
   (bool \<times> string \<times> string) io"
where
  "isValidSignature gen this data publicClient =
     io_bind (io_lift (convertPremint (premint data))) (\<lambda>converted.
     await
       (ReadIsValidSignature (getExecutorAddress gen this) (collection data) converted
          (signature data))
       (readContract_isValidSignature publicClient (getExecutorAddress gen this)
          (collection data) converted (signature data)))"

definition executePremintWithWallet ::
  "wagmiGenerated \<Rightarrow> PreminterAPI \<Rightarrow> PremintResponse \<Rightarrow> string option \<Rightarrow> WalletClient \<Rightarrow>
   int \<Rightarrow> string \<Rightarrow> PublicClient option \<Rightarrow> string io"
where
  "executePremintWithWallet gen this data account_arg walletClient quantityToMint mintComment
     publicClient_arg =
   (let targetAddress = getExecutorAddress gen this in
    io_bind (io_lift (convertPremint (premint data))) (\<lambda>converted.
    let args = (collection data, converted, signature data, quantityToMint, mintComment);
        account' = (case account_arg of None \<Rightarrow> account walletClient | Some a \<Rightarrow> Some a);
        value = quantityToMint * rewardPerToken this
    in
    case publicClient_arg of
      Some publicClient \<Rightarrow>
        io_bind
          (await
             (SimulateContract
                \<lparr>call_account = account', call_value = value, call_chain = None,
                 call_functionName = ''premint'', call_address = targetAddress,
                 call_args = args\<rparr>)
             (simulateContract publicClient
                \<lparr>call_account = account', call_value = value, call_chain = None,
                 call_functionName = ''premint'', call_address = targetAddress,
                 call_args = args\<rparr>))
          (\<lambda>request. await (WriteContract request) (writeContract walletClient request))
    | None \<Rightarrow>
        await
          (WriteContract
             \<lparr>call_account = account', call_value = value, call_chain = Some (chain this),
              call_functionName = ''premint'', call_address = targetAddress, call_args = args\<rparr>)
          (writeContract walletClient
             \<lparr>call_account = account', call_value = value, call_chain = Some (chain this),
              call_functionName = ''premint'', call_address = targetAddress,
              call_args = args\<rparr>)))"

section \<open>Example values\<close>

text \<open>
  A configuration as \<^verbatim>\<open>createPremint\<close> builds it, with the boundary values \<open>0\<close>, \<open>1\<close> and
  \<open>2\<^sup>6\<^sup>4 - 1\<close> in its bigint properties.
\<close>

definition example_config :: PremintConfig where
  "example_config =
     \<lparr>tokenConfig =
        [(''maxSupply'', JBigInt 18446744073709551615),
         (''maxTokensPerAddress'', JBigInt 0),
         (''pricePerToken'', JBigInt 1),
         (''mintDuration'', JBigInt 604800),
         (''mintStart'', JBigInt 0),
         (''royaltyMintSchedule'', JNum 0),
         (''royaltyBPS'', JNum 1000),
         (''fixedPriceMinter'', JStr ''0xd81351363b7d80b06E4Ec4De7989f0f91e41A846''),
         (''royaltyRecipient'', JStr ''0x70997970C51812dc3A010C7d01b50e0d17dc79C8''),
         (''tokenURI'', JStr ''ipfs://t'')],
      uid = JNum 1, version = 1, deleted = JBool False\<rparr>"

text \<open>The same configuration in the wire format, and a record of the registry that holds it.\<close>

definition example_wire :: PremintConfig where
  "example_wire =
     \<lparr>tokenConfig =
        [(''maxSupply'', JStr ''18446744073709551615''),
         (''maxTokensPerAddress'', JStr ''0''),
         (''pricePerToken'', JStr ''1''),
         (''mintDuration'', JStr ''604800''),
         (''mintStart'', JStr ''0''),
         (''royaltyMintSchedule'', JNum 0),
         (''royaltyBPS'', JNum 1000),
         (''fixedPriceMinter'', JStr ''0xd81351363b7d80b06E4Ec4De7989f0f91e41A846''),
         (''royaltyRecipient'', JStr ''0x70997970C51812dc3A010C7d01b50e0d17dc79C8''),
         (''tokenURI'', JStr ''ipfs://t'')],
      uid = JNum 1, version = 1, deleted = JBool False\<rparr>"

definition example_collection :: Collection where
  "example_collection =
     \<lparr>contractAdmin = ''0x70997970C51812dc3A010C7d01b50e0d17dc79C8'',
      contractURI = ''ipfs://c'', contractName = ''Test''\<rparr>"

definition example_record :: PremintResponse where
  "example_record =
     \<lparr>collection = example_collection, premint = example_wire,
      chain_name = ''ZORA-TESTNET'', signature = ''0x5157''\<rparr>"

text \<open>
  Address tables with different deployments on the Zora test network (999) and on the
  Zora main network (7777777).
\<close>

definition example_tables :: wagmiGenerated where
  "example_tables =
     \<lparr>zoraCreator1155PremintExecutorImplAddress =
        [999 \<mapsto> ''0x1111111111111111111111111111111111111111'',
         7777777 \<mapsto> ''0x2222222222222222222222222222222222222222''],
      zoraCreatorFixedPriceSaleStrategyAddress =
        [999 \<mapsto> ''0x3333333333333333333333333333333333333333'',
         7777777 \<mapsto> ''0x4444444444444444444444444444444444444444'']\<rparr>"

text \<open>
  Collaborators that answer every call: a chain client that predicts one collection
  address (with upper-case hex digits, as a checksummed address has), finds every
  signature valid or invalid as \<open>valid\<close> says, and returns the simulated request as it
  was given; a wallet; and a registry that answers every request with status 200 and a
  body whose \<^verbatim>\<open>next_uid\<close> is \<open>next\<close>.
\<close>

definition example_client :: "bool \<Rightarrow> PublicClient" where
  "example_client valid =
     \<lparr>readContract_getContractAddress =
        (\<lambda>address c. Inr ''0xAbCdEf0123456789aBcDeF0123456789AbCdEf01''),
      readContract_isValidSignature =
        (\<lambda>address c p s.
           Inr (valid, ''0xAbCdEf0123456789aBcDeF0123456789AbCdEf01'',
                ''0x70997970C51812dc3A010C7d01b50e0d17dc79C8'')),
      simulateContract = (\<lambda>call. Inr call)\<rparr>"

definition example_wallet :: WalletClient where
  "example_wallet =
     \<lparr>account = Some ''0x70997970C51812dc3A010C7d01b50e0d17dc79C8'',
      signTypedData = (\<lambda>a td. Inr ''0x5157''),
      writeContract = (\<lambda>call. Inr ''0x7a5c'')\<rparr>"

definition example_fetch :: "jsval \<Rightarrow> request \<Rightarrow> error + response" where
  "example_fetch next r = Inr \<lparr>status = 200, json = Inr (JObj [(''next_uid'', next)])\<rparr>"

text \<open>
  A chain client that finds every signature valid but the one that \<open>example_wallet\<close>
  produces, and a registry that answers every request with status 200 and the body
  \<^verbatim>\<open>null\<close>.
\<close>

definition picky_client :: PublicClient where
  "picky_client =
     \<lparr>readContract_getContractAddress =
        (\<lambda>address c. Inr ''0xAbCdEf0123456789aBcDeF0123456789AbCdEf01''),
      readContract_isValidSignature =
        (\<lambda>address c p s.
           Inr (s \<noteq> ''0x5157'', ''0xAbCdEf0123456789aBcDeF0123456789AbCdEf01'',
                ''0x70997970C51812dc3A010C7d01b50e0d17dc79C8'')),
      simulateContract = (\<lambda>call. Inr call)\<rparr>"


text \<open>The instance that the constructor builds for the \<^verbatim>\<open>foundry\<close> chain.\<close>

definition example_api :: PreminterAPI where
  "example_api =
     \<lparr>network = \<lparr>chainId = 31337, zoraPathChainName = ''zora'',
                  zoraBackendChainName = ''ZORA-TESTNET'', isTestnet = True\<rparr>,
      chain = foundry, rewardPerToken = 777000000000000\<rparr>"

section \<open>Basic facts\<close>

lemma literal_BigInts:
  "BigInt (JStr OPEN_EDITION_MINT_SIZE) = Inr 18446744073709551615"
  "BigInt (JNum (60 * 60 * 24 * 7)) = Inr 604800"
  "BigInt (JStr ''777000000000000'') = Inr 777000000000000"
  by (simp_all add: OPEN_EDITION_MINT_SIZE_def StringToBigInt_def trim_def is_white_space_def
      parse_nat_def digit_val_def)

lemma fst_io_bind:
  "fst (io_bind m f) = fst m @ (case snd m of Inl e \<Rightarrow> [] | Inr x \<Rightarrow> fst (f x))"
  by (simp add: io_bind_def split: prod.splits sum.splits)

lemma snd_io_bind:
  "snd (io_bind m f) = (case snd m of Inl e \<Rightarrow> Inl e | Inr x \<Rightarrow> snd (f x))"
  by (simp add: io_bind_def split: prod.splits sum.splits)

lemma io_simps [simp]:
  "fst (io_return x) = []" "snd (io_return x) = Inr x"
  "fst (io_throw e) = []" "snd (io_throw e) = Inl e"
  "fst (io_lift r) = []" "snd (io_lift r) = r"
  "fst (await ev r) = [ev]" "snd (await ev r) = r"
  by (simp_all add: io_return_def io_throw_def io_lift_def await_def)

section \<open>Registry calls and HTTP status\<close>

lemma post_rejects_non_200:
  "stringifiable data \<Longrightarrow> fetch (POST path data) = Inr r \<Longrightarrow> status r \<noteq> 200 \<Longrightarrow>
   post fetch path data =
     ([Fetch (POST path data)], Inl (Error (''Bad response: '' @ int_toString (status r))))"
  by (simp add: post_def io_bind_def await_def io_throw_def)

text \<open>
  C1. Every registry call is to fail on a status that is not a success. \<open>post\<close> does
  (lemma \<open>post_rejects_non_200\<close>), \<open>get\<close> does not look at the status: when the registry
  answers the \<^verbatim>\<open>next_uid\<close> request with status 500 and a JSON body, \<open>get\<close> returns that
  body as if the request had succeeded.
\<close>

theorem get_returns_body_of_failed_response:
  "get (\<lambda>r. Inr \<lparr>status = 500, json = Inr (JObj [(''next_uid'', JNum 7)])\<rparr>)
       ''https://api.zora.co/premint/signature/ZORA-TESTNET/0xabc/next_uid''
   = ([Fetch (GET ''https://api.zora.co/premint/signature/ZORA-TESTNET/0xabc/next_uid'')],
      Inr (JObj [(''next_uid'', JNum 7)]))"
  by (simp add: get_def io_bind_def await_def io_lift_def)

section \<open>Network resolution\<close>

lemma PreminterAPI_unsupported:
  "chain_id c \<notin> {7777777, 999, 31337} \<Longrightarrow>
   PreminterAPI c = Inl (Error (''Not configured for chain '' @ int_toString (chain_id c)))"
  by (simp add: PreminterAPI_def networkConfigByChain_def zora_def zoraTestnet_def foundry_def)

lemma PreminterAPI_supported:
  "chain_id c \<in> {7777777, 999, 31337} \<Longrightarrow>
   \<exists>this. PreminterAPI c = Inr this \<and> chain this = c
     \<and> rewardPerToken this = 777000000000000
     \<and> zoraBackendChainName (network this) =
          (if chain_id c = 7777777 then ''ZORA-MAINNET'' else ''ZORA-TESTNET'')
     \<and> chainId (network this) = (if chain_id c = 31337 then 31337 else 7777777)"
  by (auto simp add: PreminterAPI_def networkConfigByChain_def zora_def zoraTestnet_def
      foundry_def ZORA_TESTNET_def ZORA_MAINNET_def)

text \<open>
  C2. The resolved configuration is to carry the chain id that was looked up. The entry
  of the table for \<^verbatim>\<open>zoraTestnet\<close> (chain id 999) is written with \<^verbatim>\<open>chainId: zora.id\<close>:
  an instance constructed for the test network holds the configuration with
  \<open>chainId = 7777777\<close>. The entries for \<^verbatim>\<open>zora\<close> and \<^verbatim>\<open>foundry\<close> carry their own id, and
  a chain with no entry is refused (lemmas \<open>PreminterAPI_supported\<close>,
  \<open>PreminterAPI_unsupported\<close>).
\<close>

theorem zoraTestnet_chainId_is_zora:
  "PreminterAPI zoraTestnet =
     Inr \<lparr>network = \<lparr>chainId = 7777777, zoraPathChainName = ''zora'',
                      zoraBackendChainName = ''ZORA-TESTNET'', isTestnet = True\<rparr>,
          chain = zoraTestnet, rewardPerToken = 777000000000000\<rparr>
   \<and> chain_id zoraTestnet = 999"
  by (simp add: PreminterAPI_def networkConfigByChain_def zora_def zoraTestnet_def foundry_def
      ZORA_TESTNET_def)

section \<open>Decimal strings\<close>

lemma digit_val_digit_char: "d < 10 \<Longrightarrow> digit_val 10 (digit_char d) = Some d"
proof -
  assume "d < 10"
  then have "d \<in> {0, 1, 2, 3, 4, 5, 6, 7, 8, 9}" by auto
  then show ?thesis
    by (auto simp add: digit_val_def digit_char_def)
qed

lemma digit_char_cases:
  "d < 10 \<Longrightarrow> digit_char d \<in> set ''0123456789''"
  unfolding digit_char_def by (rule nth_mem) simp

lemma parse_digits_append:
  "parse_digits r (xs @ ys) acc =
     (case parse_digits r xs acc of None \<Rightarrow> None | Some a \<Rightarrow> parse_digits r ys a)"
  by (induction xs arbitrary: acc) (auto split: option.splits)

lemma parse_digits_decimal: "parse_digits 10 (decimal n) 0 = Some n"
proof (induction n rule: decimal.induct)
  case (1 n)
  show ?case
  proof (cases "n < 10")
    case True
    then show ?thesis by (simp add: decimal.simps [of n] digit_val_digit_char)
  next
    case False
    with 1 have "parse_digits 10 (decimal (n div 10)) 0 = Some (n div 10)" by simp
    with False show ?thesis
      by (simp add: decimal.simps [of n] parse_digits_append digit_val_digit_char)
  qed
qed

lemma decimal_digits: "set (decimal n) \<subseteq> set ''0123456789''"
proof (induction n rule: decimal.induct)
  case (1 n)
  show ?case
  proof (cases "n < 10")
    case True
    then show ?thesis using digit_char_cases [of n] by (simp add: decimal.simps [of n])
  next
    case False
    with 1 have "set (decimal (n div 10)) \<subseteq> set ''0123456789''" by simp
    moreover have "digit_char (n mod 10) \<in> set ''0123456789''"
      by (rule digit_char_cases) simp
    ultimately show ?thesis using False by (simp add: decimal.simps [of n])
  qed
qed

lemma decimal_nonempty: "decimal n \<noteq> []"
  by (subst decimal.simps) simp

lemma trim_id:
  assumes "s \<noteq> []" "\<not> is_white_space (hd s)" "\<not> is_white_space (last s)"
  shows "trim s = s"
proof -
  from assms have a: "dropWhile is_white_space s = s"
    by (cases s) auto
  from assms have "dropWhile is_white_space (rev s) = rev s"
    by (cases "rev s") (auto simp: last_rev hd_rev)
  with a show ?thesis by (simp add: trim_def)
qed

lemma digit_not_white: "c \<in> set ''0123456789'' \<Longrightarrow> \<not> is_white_space c"
  by (auto simp: is_white_space_def)

lemma take2D:
  assumes "take 2 s = [a, b]"
  shows "b \<in> set s"
proof -
  have "b \<in> set (take 2 s)" by (simp only: assms) simp
  then show ?thesis by (rule in_set_takeD)
qed

lemma StringToBigInt_decimal: "StringToBigInt (decimal n) = Some (int n)"
proof -
  let ?s = "decimal n"
  have ne: "?s \<noteq> []" by (rule decimal_nonempty)
  have dig: "set ?s \<subseteq> set ''0123456789''" by (rule decimal_digits)
  from ne dig have h: "hd ?s \<in> set ''0123456789''" and l: "last ?s \<in> set ''0123456789''"
    using hd_in_set last_in_set by blast+
  have tr: "trim ?s = ?s"
    using ne h l by (intro trim_id digit_not_white)
  have h1: "hd ?s \<noteq> CHR ''-''" "hd ?s \<noteq> CHR ''+''" using h by auto
  have t2: "take 2 ?s \<notin> {''0x'', ''0X'', ''0o'', ''0O'', ''0b'', ''0B''}"
  proof
    assume a: "take 2 ?s \<in> {''0x'', ''0X'', ''0o'', ''0O'', ''0b'', ''0B''}"
    then obtain c where c: "take 2 ?s = [CHR ''0'', c]" "c \<notin> set ''0123456789''"
      by auto
    from c(1) have "c \<in> set ?s" by (rule take2D)
    with dig c(2) show False by blast
  qed
  show ?thesis
    using ne h1 t2 by (simp add: StringToBigInt_def tr parse_nat_def parse_digits_decimal)
qed

lemma StringToBigInt_int_toString: "StringToBigInt (int_toString n) = Some n"
proof (cases "n < 0")
  case False
  then show ?thesis by (simp add: int_toString_def StringToBigInt_decimal)
next
  case True
  let ?m = "nat (- n)"
  let ?s = "CHR ''-'' # decimal ?m"
  have "last (decimal ?m) \<in> set (decimal ?m)"
    by (rule last_in_set) (rule decimal_nonempty)
  then have "last (decimal ?m) \<in> set ''0123456789''"
    using decimal_digits [of ?m] by blast
  then have "last ?s \<in> set ''0123456789''"
    by (simp only: last_ConsR [OF decimal_nonempty])
  then have l: "\<not> is_white_space (last ?s)"
    by (rule digit_not_white)
  have h: "\<not> is_white_space (hd ?s)"
    by (simp add: is_white_space_def)
  have tr: "trim ?s = ?s"
    by (rule trim_id [OF _ h l]) simp
  from True show ?thesis
    by (simp add: int_toString_def StringToBigInt_def tr parse_nat_def decimal_nonempty
        parse_digits_decimal)
qed

lemma BigInt_toString_bigint: "ebind (toString (JBigInt n)) (\<lambda>s. BigInt (JStr s)) = Inr n"
  by (simp add: ebind_def StringToBigInt_int_toString)

section \<open>Object literals\<close>

lemma getProp_update:
  "getProp (AList.update k v obj) k' = (if k' = k then v else getProp obj k')"
  by (simp add: getProp_def update_conv')

lemma getProp_BigInt_map_of:
  "getProp obj k = JBigInt n \<Longrightarrow> map_of obj k = Some (JBigInt n)"
  by (simp add: getProp_def split: option.splits)

lemma update_fresh: "k \<notin> fst ` set ys \<Longrightarrow> AList.update k v ys = ys @ [(k, v)]"
  by (induction ys) auto

lemma spread_distinct:
  "distinct (map fst (ys @ xs)) \<Longrightarrow> fold (\<lambda>(k, v). AList.update k v) xs ys = ys @ xs"
proof (induction xs arbitrary: ys)
  case Nil
  then show ?case by simp
next
  case (Cons x xs)
  obtain k v where x: "x = (k, v)" by (cases x)
  from Cons.prems have fresh: "k \<notin> fst ` set ys" by (auto simp: x)
  from Cons.prems have "distinct (map fst ((ys @ [(k, v)]) @ xs))" by (simp add: x)
  then have "fold (\<lambda>(k, v). AList.update k v) xs (ys @ [(k, v)]) = (ys @ [(k, v)]) @ xs"
    by (rule Cons.IH)
  then show ?case by (simp add: x update_fresh [OF fresh])
qed

lemma spread_onto_empty:
  "distinct (map fst xs) \<Longrightarrow> define_member (Spread xs) [] = xs"
  using spread_distinct [of "[]" xs] by simp

lemma spread_map_of:
  "map_of (define_member (Spread src) obj) k =
     (case map_of (rev src) k of None \<Rightarrow> map_of obj k | Some v \<Rightarrow> Some v)"
proof (induction src arbitrary: obj)
  case Nil
  then show ?case by simp
next
  case (Cons x xs)
  obtain k' v where x: "x = (k', v)" by (cases x)
  have "map_of (define_member (Spread xs) (AList.update k' v obj)) k =
     (case map_of (rev xs) k of None \<Rightarrow> map_of (AList.update k' v obj) k | Some v \<Rightarrow> Some v)"
    by (rule Cons.IH)
  then show ?case
    by (simp add: x update_conv' map_add_def split: option.splits)
qed

lemma alist_eqI:
  "map fst xs = map fst ys \<Longrightarrow> distinct (map fst xs) \<Longrightarrow> map_of xs = map_of ys \<Longrightarrow> xs = ys"
proof (induction xs arbitrary: ys)
  case Nil
  then show ?case by simp
next
  case (Cons x xs)
  from Cons.prems(1) obtain y ys' where ys: "ys = y # ys'" by (cases ys) auto
  with Cons.prems(1) have k: "fst x = fst y" and ks: "map fst xs = map fst ys'" by auto
  from Cons.prems(3) have "map_of (x # xs) (fst x) = map_of ys (fst x)" by (rule fun_cong)
  then have v: "snd x = snd y" by (simp add: ys k)
  have xy: "x = y" using k v by (simp add: prod_eq_iff)
  have "map_of xs = map_of ys'"
  proof
    fix a
    show "map_of xs a = map_of ys' a"
    proof (cases "a = fst x")
      case True
      with Cons.prems(2) have "a \<notin> fst ` set xs" by auto
      then have "map_of xs a = None" by (simp add: map_of_eq_None_iff)
      moreover from True Cons.prems(2) ks have "a \<notin> fst ` set ys'"
        by (metis distinct.simps(2) list.simps(9) set_map)
      then have "map_of ys' a = None" by (simp add: map_of_eq_None_iff)
      ultimately show ?thesis by simp
    next
      case False
      from Cons.prems(3) have "map_of (x # xs) a = map_of ys a" by (rule fun_cong)
      then have "map_of (x # xs) a = map_of (y # ys') a" by (simp only: ys)
      with False k show ?thesis by simp
    qed
  qed
  with Cons.IH [OF ks] Cons.prems(2) have "xs = ys'" by simp
  with xy ys show ?case by simp
qed

section \<open>The wire format\<close>

lemma encodePremintForAPI_bigints:
  assumes "getProp (tokenConfig p) ''maxSupply'' = JBigInt a"
    and "getProp (tokenConfig p) ''pricePerToken'' = JBigInt b"
    and "getProp (tokenConfig p) ''mintStart'' = JBigInt c"
    and "getProp (tokenConfig p) ''mintDuration'' = JBigInt d"
    and "getProp (tokenConfig p) ''maxTokensPerAddress'' = JBigInt e"
  shows "encodePremintForAPI p =
    Inr (p\<lparr>tokenConfig :=
      AList.update ''maxTokensPerAddress'' (JStr (int_toString e))
       (AList.update ''mintDuration'' (JStr (int_toString d))
         (AList.update ''mintStart'' (JStr (int_toString c))
           (AList.update ''pricePerToken'' (JStr (int_toString b))
             (AList.update ''maxSupply'' (JStr (int_toString a))
               (define_member (Spread (tokenConfig p)) [])))))\<rparr>)"
  by (simp add: encodePremintForAPI_def assms ebind_def object_literal_def
      del: define_member.simps(2))

lemma convertPremint_strings:
  assumes "getProp (tokenConfig w) ''maxSupply'' = JStr (int_toString a)"
    and "getProp (tokenConfig w) ''pricePerToken'' = JStr (int_toString b)"
    and "getProp (tokenConfig w) ''mintStart'' = JStr (int_toString c)"
    and "getProp (tokenConfig w) ''mintDuration'' = JStr (int_toString d)"
    and "getProp (tokenConfig w) ''maxTokensPerAddress'' = JStr (int_toString e)"
  shows "convertPremint w =
    Inr (w\<lparr>tokenConfig :=
      AList.update ''maxTokensPerAddress'' (JBigInt e)
       (AList.update ''mintDuration'' (JBigInt d)
         (AList.update ''mintStart'' (JBigInt c)
           (AList.update ''pricePerToken'' (JBigInt b)
             (AList.update ''maxSupply'' (JBigInt a)
               (define_member (Spread (tokenConfig w)) [])))))\<rparr>)"
  by (simp add: convertPremint_def assms ebind_def object_literal_def
      StringToBigInt_int_toString del: define_member.simps(2))

text \<open>
  C3, as the code has it. For a configuration whose five bigint properties hold bigints,
  the encoder succeeds; it writes exactly those five (\<open>maxSupply\<close>, \<open>pricePerToken\<close>,
  \<open>mintStart\<close>, \<open>mintDuration\<close>, \<open>maxTokensPerAddress\<close>) as decimal strings and leaves
  every other property of \<open>tokenConfig\<close>, among them the numbers \<open>royaltyMintSchedule\<close>
  and \<open>royaltyBPS\<close>, and \<open>uid\<close>, \<open>version\<close> and \<open>deleted\<close> as they are.
\<close>

theorem encodePremintForAPI_wire_format:
  assumes "getProp (tokenConfig p) ''maxSupply'' = JBigInt a"
    and "getProp (tokenConfig p) ''pricePerToken'' = JBigInt b"
    and "getProp (tokenConfig p) ''mintStart'' = JBigInt c"
    and "getProp (tokenConfig p) ''mintDuration'' = JBigInt d"
    and "getProp (tokenConfig p) ''maxTokensPerAddress'' = JBigInt e"
    and "distinct (map fst (tokenConfig p))"
  shows "\<exists>w. encodePremintForAPI p = Inr w
    \<and> getProp (tokenConfig w) ''maxSupply'' = JStr (int_toString a)
    \<and> getProp (tokenConfig w) ''pricePerToken'' = JStr (int_toString b)
    \<and> getProp (tokenConfig w) ''mintStart'' = JStr (int_toString c)
    \<and> getProp (tokenConfig w) ''mintDuration'' = JStr (int_toString d)
    \<and> getProp (tokenConfig w) ''maxTokensPerAddress'' = JStr (int_toString e)
    \<and> (\<forall>k. k \<notin> {''maxSupply'', ''pricePerToken'', ''mintStart'', ''mintDuration'',
                 ''maxTokensPerAddress''} \<longrightarrow>
           map_of (tokenConfig w) k = map_of (tokenConfig p) k)
    \<and> uid w = uid p \<and> version w = version p \<and> deleted w = deleted p"
  by (simp add: encodePremintForAPI_bigints [OF assms(1-5)] spread_onto_empty [OF assms(6)]
      getProp_update update_conv' del: define_member.simps(2))

theorem encodePremintForAPI_wire_format_witness:
  "\<exists>w. encodePremintForAPI example_config = Inr w
    \<and> getProp (tokenConfig w) ''maxSupply'' = JStr ''18446744073709551615''
    \<and> getProp (tokenConfig w) ''pricePerToken'' = JStr ''1''
    \<and> getProp (tokenConfig w) ''mintStart'' = JStr ''0''
    \<and> getProp (tokenConfig w) ''mintDuration'' = JStr ''604800''
    \<and> getProp (tokenConfig w) ''maxTokensPerAddress'' = JStr ''0''
    \<and> map_of (tokenConfig w) ''royaltyBPS'' = Some (JNum 1000)
    \<and> map_of (tokenConfig w) ''tokenURI'' = Some (JStr ''ipfs://t'')
    \<and> uid w = JNum 1 \<and> version w = 1 \<and> deleted w = JBool False"
proof -
  have d: "distinct (map fst (tokenConfig example_config))"
    by (simp add: example_config_def)
  have s: "int_toString 18446744073709551615 = ''18446744073709551615''"
    "int_toString 1 = ''1''" "int_toString 0 = ''0''" "int_toString 604800 = ''604800''"
    by (simp_all add: int_toString_def decimal.simps digit_char_def)
  have "\<exists>w. encodePremintForAPI example_config = Inr w
    \<and> getProp (tokenConfig w) ''maxSupply'' = JStr (int_toString 18446744073709551615)
    \<and> getProp (tokenConfig w) ''pricePerToken'' = JStr (int_toString 1)
    \<and> getProp (tokenConfig w) ''mintStart'' = JStr (int_toString 0)
    \<and> getProp (tokenConfig w) ''mintDuration'' = JStr (int_toString 604800)
    \<and> getProp (tokenConfig w) ''maxTokensPerAddress'' = JStr (int_toString 0)
    \<and> (\<forall>k. k \<notin> {''maxSupply'', ''pricePerToken'', ''mintStart'', ''mintDuration'',
                 ''maxTokensPerAddress''} \<longrightarrow>
           map_of (tokenConfig w) k = map_of (tokenConfig example_config) k)
    \<and> uid w = uid example_config \<and> version w = version example_config
    \<and> deleted w = deleted example_config"
    by (rule encodePremintForAPI_wire_format [OF _ _ _ _ _ d])
       (simp_all add: example_config_def getProp_def)
  then obtain w where w: "encodePremintForAPI example_config = Inr w"
    "getProp (tokenConfig w) ''maxSupply'' = JStr (int_toString 18446744073709551615)"
    "getProp (tokenConfig w) ''pricePerToken'' = JStr (int_toString 1)"
    "getProp (tokenConfig w) ''mintStart'' = JStr (int_toString 0)"
    "getProp (tokenConfig w) ''mintDuration'' = JStr (int_toString 604800)"
    "getProp (tokenConfig w) ''maxTokensPerAddress'' = JStr (int_toString 0)"
    "\<forall>k. k \<notin> {''maxSupply'', ''pricePerToken'', ''mintStart'', ''mintDuration'',
                 ''maxTokensPerAddress''} \<longrightarrow>
           map_of (tokenConfig w) k = map_of (tokenConfig example_config) k"
    "uid w = uid example_config" "version w = version example_config"
    "deleted w = deleted example_config"
    by blast
  from w(7) have "map_of (tokenConfig w) ''royaltyBPS'' = map_of (tokenConfig example_config) ''royaltyBPS''"
    "map_of (tokenConfig w) ''tokenURI'' = map_of (tokenConfig example_config) ''tokenURI''"
    by simp_all
  then have o: "map_of (tokenConfig w) ''royaltyBPS'' = Some (JNum 1000)"
    "map_of (tokenConfig w) ''tokenURI'' = Some (JStr ''ipfs://t'')"
    by (simp_all add: example_config_def)
  from w(8-10) have r: "uid w = JNum 1" "version w = 1" "deleted w = JBool False"
    by (simp_all add: example_config_def)
  show ?thesis
    using w(1-6) o r unfolding s by blast
qed

text \<open>
  C3, as stated, fails: \<open>royaltyBPS\<close> and \<open>royaltyMintSchedule\<close> are integer properties
  of \<open>tokenConfig\<close>, and the encoder passes them on as numbers, not as decimal strings.
\<close>

theorem royalty_fields_stay_numbers:
  "\<exists>w. encodePremintForAPI example_config = Inr w
     \<and> getProp (tokenConfig example_config) ''royaltyBPS'' = JNum 1000
     \<and> getProp (tokenConfig w) ''royaltyBPS'' = JNum 1000
     \<and> getProp (tokenConfig w) ''royaltyBPS'' \<noteq> JStr (int_toString 1000)
     \<and> getProp (tokenConfig example_config) ''royaltyMintSchedule'' = JNum 0
     \<and> getProp (tokenConfig w) ''royaltyMintSchedule'' = JNum 0
     \<and> getProp (tokenConfig w) ''royaltyMintSchedule'' \<noteq> JStr (int_toString 0)"
  by (simp add: encodePremintForAPI_def example_config_def getProp_def ebind_def
      object_literal_def)

text \<open>
  C4. Encoding a configuration to the wire format and decoding it again succeeds and
  gives back the five bigint properties with the integers they held, whatever those are;
  when the properties of \<open>tokenConfig\<close> have pairwise different keys, as those of an
  object do, the whole configuration comes back.
\<close>

theorem premint_bigints_round_trip:
  assumes "getProp (tokenConfig p) ''maxSupply'' = JBigInt a"
    and "getProp (tokenConfig p) ''pricePerToken'' = JBigInt b"
    and "getProp (tokenConfig p) ''mintStart'' = JBigInt c"
    and "getProp (tokenConfig p) ''mintDuration'' = JBigInt d"
    and "getProp (tokenConfig p) ''maxTokensPerAddress'' = JBigInt e"
  shows "\<exists>w q. encodePremintForAPI p = Inr w \<and> convertPremint w = Inr q
    \<and> getProp (tokenConfig q) ''maxSupply'' = JBigInt a
    \<and> getProp (tokenConfig q) ''pricePerToken'' = JBigInt b
    \<and> getProp (tokenConfig q) ''mintStart'' = JBigInt c
    \<and> getProp (tokenConfig q) ''mintDuration'' = JBigInt d
    \<and> getProp (tokenConfig q) ''maxTokensPerAddress'' = JBigInt e
    \<and> (distinct (map fst (tokenConfig p)) \<longrightarrow> q = p)"
proof -
  let ?tc = "tokenConfig p"
  let ?tw = "AList.update ''maxTokensPerAddress'' (JStr (int_toString e))
       (AList.update ''mintDuration'' (JStr (int_toString d))
         (AList.update ''mintStart'' (JStr (int_toString c))
           (AList.update ''pricePerToken'' (JStr (int_toString b))
             (AList.update ''maxSupply'' (JStr (int_toString a))
               (define_member (Spread ?tc) [])))))"
  let ?w = "p\<lparr>tokenConfig := ?tw\<rparr>"
  let ?tq = "AList.update ''maxTokensPerAddress'' (JBigInt e)
       (AList.update ''mintDuration'' (JBigInt d)
         (AList.update ''mintStart'' (JBigInt c)
           (AList.update ''pricePerToken'' (JBigInt b)
             (AList.update ''maxSupply'' (JBigInt a)
               (define_member (Spread ?tw) [])))))"
  let ?q = "?w\<lparr>tokenConfig := ?tq\<rparr>"
  have enc: "encodePremintForAPI p = Inr ?w"
    by (rule encodePremintForAPI_bigints [OF assms])
  have conv: "convertPremint ?w = Inr ?q"
    using convertPremint_strings [of ?w a b c d e]
    by (simp add: getProp_update del: define_member.simps(2))
  have fields: "getProp ?tq ''maxSupply'' = JBigInt a"
    "getProp ?tq ''pricePerToken'' = JBigInt b"
    "getProp ?tq ''mintStart'' = JBigInt c"
    "getProp ?tq ''mintDuration'' = JBigInt d"
    "getProp ?tq ''maxTokensPerAddress'' = JBigInt e"
    by (simp_all add: getProp_update del: define_member.simps(2))
  have same: "?q = p" if dist: "distinct (map fst ?tc)"
  proof -
    note m = assms [THEN getProp_BigInt_map_of]
    have mem: "''maxSupply'' \<in> fst ` set ?tc" "''pricePerToken'' \<in> fst ` set ?tc"
      "''mintStart'' \<in> fst ` set ?tc" "''mintDuration'' \<in> fst ` set ?tc"
      "''maxTokensPerAddress'' \<in> fst ` set ?tc"
      using m by (auto dest!: map_of_SomeD intro: rev_image_eqI)
    have s1: "define_member (Spread ?tc) [] = ?tc"
      by (rule spread_onto_empty [OF dist])
    let ?tw' = "AList.update ''maxTokensPerAddress'' (JStr (int_toString e))
       (AList.update ''mintDuration'' (JStr (int_toString d))
         (AList.update ''mintStart'' (JStr (int_toString c))
           (AList.update ''pricePerToken'' (JStr (int_toString b))
             (AList.update ''maxSupply'' (JStr (int_toString a)) ?tc))))"
    have dw: "distinct (map fst ?tw')"
      by (intro distinct_update dist)
    have s2: "define_member (Spread ?tw') [] = ?tw'"
      by (rule spread_onto_empty [OF dw])
    have keys: "map fst ?tq = map fst ?tc"
      unfolding s1 s2 using mem by (simp add: update_keys dom_update)
    have dq: "distinct (map fst ?tq)"
      unfolding keys by (rule dist)
    have maps: "map_of ?tq = map_of ?tc"
      unfolding s1 s2 using m by (auto simp add: update_conv' fun_eq_iff)
    have "?tq = ?tc"
      by (rule alist_eqI [OF keys dq maps])
    then show ?thesis by (simp del: define_member.simps(2))
  qed
  show ?thesis
    using enc conv fields same by (intro exI [of _ ?w] exI [of _ ?q]) (simp del: define_member.simps(2))
qed

theorem premint_bigints_round_trip_witness:
  "\<exists>w. encodePremintForAPI example_config = Inr w \<and> convertPremint w = Inr example_config
     \<and> getProp (tokenConfig example_config) ''maxSupply'' = JBigInt (2 ^ 64 - 1)
     \<and> getProp (tokenConfig example_config) ''pricePerToken'' = JBigInt 1
     \<and> getProp (tokenConfig example_config) ''mintStart'' = JBigInt 0"
proof -
  have d: "distinct (map fst (tokenConfig example_config))"
    by (simp add: example_config_def)
  have "\<exists>w q. encodePremintForAPI example_config = Inr w \<and> convertPremint w = Inr q
    \<and> getProp (tokenConfig q) ''maxSupply'' = JBigInt 18446744073709551615
    \<and> getProp (tokenConfig q) ''pricePerToken'' = JBigInt 1
    \<and> getProp (tokenConfig q) ''mintStart'' = JBigInt 0
    \<and> getProp (tokenConfig q) ''mintDuration'' = JBigInt 604800
    \<and> getProp (tokenConfig q) ''maxTokensPerAddress'' = JBigInt 0
    \<and> (distinct (map fst (tokenConfig example_config)) \<longrightarrow> q = example_config)"
    by (rule premint_bigints_round_trip) (simp_all add: example_config_def getProp_def)
  with d obtain w where "encodePremintForAPI example_config = Inr w"
    "convertPremint w = Inr example_config"
    by blast
  moreover have "getProp (tokenConfig example_config) ''maxSupply'' = JBigInt (2 ^ 64 - 1)"
    "getProp (tokenConfig example_config) ''pricePerToken'' = JBigInt 1"
    "getProp (tokenConfig example_config) ''mintStart'' = JBigInt 0"
    by (simp_all add: example_config_def getProp_def)
  ultimately show ?thesis by blast
qed

section \<open>Building the token configuration\<close>

lemma map_of_rev_distinct:
  assumes "distinct (map fst xs)"
  shows "map_of (rev xs) = map_of xs"
proof
  fix k
  show "map_of (rev xs) k = map_of xs k"
  proof (cases "map_of xs k")
    case None
    then have "k \<notin> fst ` set xs" by (simp add: map_of_eq_None_iff)
    then have "k \<notin> fst ` set (rev xs)" by simp
    then have "map_of (rev xs) k = None" by (simp add: map_of_eq_None_iff)
    with None show ?thesis by simp
  next
    case (Some v)
    then have "(k, v) \<in> set (rev xs)" by (auto dest: map_of_SomeD)
    moreover from assms have "distinct (map fst (rev xs))" by (simp add: rev_map [symmetric])
    ultimately have "map_of (rev xs) k = Some v" by (rule map_of_is_SomeI [rotated])
    with Some show ?thesis by simp
  qed
qed

lemma tokenConfig_append_override:
  "createPremint_tokenConfig gen this acct (mint @ [(k, v)]) =
     AList.update k v (createPremint_tokenConfig gen this acct mint)"
  by (simp add: createPremint_tokenConfig_def object_literal_def)

lemma tokenConfig_lookup:
  "map_of (createPremint_tokenConfig gen this acct mint) k =
     (case map_of (rev mint) k of
        Some v \<Rightarrow> Some v
      | None \<Rightarrow>
          if k = ''royaltyRecipient'' then Some (JStr acct)
          else if k = ''fixedPriceMinter'' then Some (getFixedPriceMinterAddress gen this)
          else map_of DefaultMintArguments k)"
proof -
  have d: "define_member (Spread DefaultMintArguments) [] = DefaultMintArguments"
    by (rule spread_onto_empty) (simp add: DefaultMintArguments_def)
  have "createPremint_tokenConfig gen this acct mint =
     define_member (Spread mint)
       (AList.update ''royaltyRecipient'' (JStr acct)
          (AList.update ''fixedPriceMinter'' (getFixedPriceMinterAddress gen this)
             (define_member (Spread DefaultMintArguments) [])))"
    by (simp add: createPremint_tokenConfig_def object_literal_def del: define_member.simps(2))
  then show ?thesis
    by (simp add: spread_map_of d update_conv' del: define_member.simps(2) split: option.splits)
qed

text \<open>
  C8. The token configuration of \<^verbatim>\<open>createPremint\<close> is merged in this order: a property
  the caller supplies wins; otherwise \<open>royaltyRecipient\<close> is the requesting account and
  \<open>fixedPriceMinter\<close> the address of the fixed-price minter; otherwise the default table
  decides. With nothing supplied but the required \<open>tokenURI\<close> the result is the default
  table (\<open>maxSupply = 18446744073709551615\<close>, \<open>mintDuration = 604800\<close>,
  \<open>royaltyBPS = 1000\<close>, ...) followed by the two derived properties and the \<open>tokenURI\<close>;
  supplying one more property \<open>k\<close> sets \<open>k\<close> and changes no other property.
\<close>

theorem tokenConfig_merge:
  "(distinct (map fst mint) \<longrightarrow>
      map_of (createPremint_tokenConfig gen this acct mint) k =
        (case map_of mint k of
           Some v \<Rightarrow> Some v
         | None \<Rightarrow>
             if k = ''royaltyRecipient'' then Some (JStr acct)
             else if k = ''fixedPriceMinter'' then Some (getFixedPriceMinterAddress gen this)
             else map_of DefaultMintArguments k))
   \<and> createPremint_tokenConfig gen this acct [(''tokenURI'', t)] =
       [(''maxSupply'', JBigInt 18446744073709551615),
        (''maxTokensPerAddress'', JBigInt 0),
        (''pricePerToken'', JBigInt 0),
        (''mintDuration'', JBigInt 604800),
        (''mintStart'', JBigInt 0),
        (''royaltyMintSchedule'', JNum 0),
        (''royaltyBPS'', JNum 1000),
        (''fixedPriceMinter'', getFixedPriceMinterAddress gen this),
        (''royaltyRecipient'', JStr acct),
        (''tokenURI'', t)]
   \<and> createPremint_tokenConfig gen this acct [(''tokenURI'', t), (k, v)] =
       AList.update k v (createPremint_tokenConfig gen this acct [(''tokenURI'', t)])
   \<and> (\<forall>k'. k' \<noteq> k \<longrightarrow>
         getProp (createPremint_tokenConfig gen this acct [(''tokenURI'', t), (k, v)]) k' =
         getProp (createPremint_tokenConfig gen this acct [(''tokenURI'', t)]) k')
   \<and> getProp (createPremint_tokenConfig gen this acct [(''tokenURI'', t), (k, v)]) k = v"
proof -
  have a: "distinct (map fst mint) \<longrightarrow>
      map_of (createPremint_tokenConfig gen this acct mint) k =
        (case map_of mint k of
           Some v \<Rightarrow> Some v
         | None \<Rightarrow>
             if k = ''royaltyRecipient'' then Some (JStr acct)
             else if k = ''fixedPriceMinter'' then Some (getFixedPriceMinterAddress gen this)
             else map_of DefaultMintArguments k)"
    by (simp add: tokenConfig_lookup map_of_rev_distinct)
  have b: "createPremint_tokenConfig gen this acct [(''tokenURI'', t)] =
       [(''maxSupply'', JBigInt 18446744073709551615),
        (''maxTokensPerAddress'', JBigInt 0),
        (''pricePerToken'', JBigInt 0),
        (''mintDuration'', JBigInt 604800),
        (''mintStart'', JBigInt 0),
        (''royaltyMintSchedule'', JNum 0),
        (''royaltyBPS'', JNum 1000),
        (''fixedPriceMinter'', getFixedPriceMinterAddress gen this),
        (''royaltyRecipient'', JStr acct),
        (''tokenURI'', t)]"
    by (simp add: createPremint_tokenConfig_def object_literal_def DefaultMintArguments_def)
  have c: "createPremint_tokenConfig gen this acct [(''tokenURI'', t), (k, v)] =
       AList.update k v (createPremint_tokenConfig gen this acct [(''tokenURI'', t)])"
    using tokenConfig_append_override [of gen this acct "[(''tokenURI'', t)]" k v] by simp
  have d: "\<forall>k'. k' \<noteq> k \<longrightarrow>
         getProp (createPremint_tokenConfig gen this acct [(''tokenURI'', t), (k, v)]) k' =
         getProp (createPremint_tokenConfig gen this acct [(''tokenURI'', t)]) k'"
    by (simp only: c getProp_update) simp
  have e: "getProp (createPremint_tokenConfig gen this acct [(''tokenURI'', t), (k, v)]) k = v"
    by (simp only: c getProp_update) simp
  from a b c d e show ?thesis by blast
qed

theorem tokenConfig_merge_witness:
  "getProp (createPremint_tokenConfig example_tables
      \<lparr>network = \<lparr>chainId = 31337, zoraPathChainName = ''zora'',
                   zoraBackendChainName = ''ZORA-TESTNET'', isTestnet = True\<rparr>,
       chain = foundry, rewardPerToken = 777000000000000\<rparr>
      ''0x70997970C51812dc3A010C7d01b50e0d17dc79C8''
      [(''tokenURI'', JStr ''ipfs://t''), (''royaltyBPS'', JNum 500)]) ''royaltyBPS'' = JNum 500
   \<and> getProp (createPremint_tokenConfig example_tables
      \<lparr>network = \<lparr>chainId = 31337, zoraPathChainName = ''zora'',
                   zoraBackendChainName = ''ZORA-TESTNET'', isTestnet = True\<rparr>,
       chain = foundry, rewardPerToken = 777000000000000\<rparr>
      ''0x70997970C51812dc3A010C7d01b50e0d17dc79C8''
      [(''tokenURI'', JStr ''ipfs://t''), (''royaltyBPS'', JNum 500)]) ''mintDuration'' = JBigInt 604800
   \<and> map_of (createPremint_tokenConfig example_tables
      \<lparr>network = \<lparr>chainId = 31337, zoraPathChainName = ''zora'',
                   zoraBackendChainName = ''ZORA-TESTNET'', isTestnet = True\<rparr>,
       chain = foundry, rewardPerToken = 777000000000000\<rparr>
      ''0x70997970C51812dc3A010C7d01b50e0d17dc79C8''
      [(''tokenURI'', JStr ''ipfs://t''), (''royaltyRecipient'', JStr ''0xb0b'')]) ''royaltyRecipient''
      = Some (JStr ''0xb0b'')"
proof -
  let ?api = "\<lparr>network = \<lparr>chainId = 31337, zoraPathChainName = ''zora'',
                   zoraBackendChainName = ''ZORA-TESTNET'', isTestnet = True\<rparr>,
       chain = foundry, rewardPerToken = 777000000000000\<rparr>"
  let ?a = "''0x70997970C51812dc3A010C7d01b50e0d17dc79C8''"
  note m = tokenConfig_merge [of "[(''tokenURI'', JStr ''ipfs://t''), (''royaltyRecipient'', JStr ''0xb0b'')]"
      example_tables ?api ?a "''royaltyRecipient''" "JStr ''ipfs://t''" "JNum 500"]
  note n = tokenConfig_merge [of "[]" example_tables ?api ?a "''royaltyBPS''" "JStr ''ipfs://t''" "JNum 500"]
  from n have 1: "getProp (createPremint_tokenConfig example_tables ?api ?a
      [(''tokenURI'', JStr ''ipfs://t''), (''royaltyBPS'', JNum 500)]) ''royaltyBPS'' = JNum 500"
    by (rule conjunct2 [THEN conjunct2, THEN conjunct2, THEN conjunct2])
  from n have d: "\<forall>k'. k' \<noteq> ''royaltyBPS'' \<longrightarrow>
      getProp (createPremint_tokenConfig example_tables ?api ?a
        [(''tokenURI'', JStr ''ipfs://t''), (''royaltyBPS'', JNum 500)]) k' =
      getProp (createPremint_tokenConfig example_tables ?api ?a
        [(''tokenURI'', JStr ''ipfs://t'')]) k'"
    by (rule conjunct2 [THEN conjunct2, THEN conjunct2, THEN conjunct1])
  from n have b: "createPremint_tokenConfig example_tables ?api ?a [(''tokenURI'', JStr ''ipfs://t'')] =
       [(''maxSupply'', JBigInt 18446744073709551615),
        (''maxTokensPerAddress'', JBigInt 0),
        (''pricePerToken'', JBigInt 0),
        (''mintDuration'', JBigInt 604800),
        (''mintStart'', JBigInt 0),
        (''royaltyMintSchedule'', JNum 0),
        (''royaltyBPS'', JNum 1000),
        (''fixedPriceMinter'', getFixedPriceMinterAddress example_tables ?api),
        (''royaltyRecipient'', JStr ?a),
        (''tokenURI'', JStr ''ipfs://t'')]"
    by (rule conjunct2 [THEN conjunct1])
  have "getProp (createPremint_tokenConfig example_tables ?api ?a
      [(''tokenURI'', JStr ''ipfs://t''), (''royaltyBPS'', JNum 500)]) ''mintDuration'' =
      getProp (createPremint_tokenConfig example_tables ?api ?a
      [(''tokenURI'', JStr ''ipfs://t'')]) ''mintDuration''"
    by (rule d [rule_format]) simp
  also have "\<dots> = JBigInt 604800"
    by (simp only: b) (simp add: getProp_def)
  finally have 2: "getProp (createPremint_tokenConfig example_tables ?api ?a
      [(''tokenURI'', JStr ''ipfs://t''), (''royaltyBPS'', JNum 500)]) ''mintDuration'' = JBigInt 604800" .
  from m have "distinct (map fst [(''tokenURI'', JStr ''ipfs://t''), (''royaltyRecipient'', JStr ''0xb0b'')]) \<longrightarrow>
      map_of (createPremint_tokenConfig example_tables ?api ?a
        [(''tokenURI'', JStr ''ipfs://t''), (''royaltyRecipient'', JStr ''0xb0b'')]) ''royaltyRecipient'' =
        (case map_of [(''tokenURI'', JStr ''ipfs://t''), (''royaltyRecipient'', JStr ''0xb0b'')] ''royaltyRecipient'' of
           Some v \<Rightarrow> Some v
         | None \<Rightarrow>
             if ''royaltyRecipient'' = ''royaltyRecipient'' then Some (JStr ?a)
             else if ''royaltyRecipient'' = ''fixedPriceMinter'' then Some (getFixedPriceMinterAddress example_tables ?api)
             else map_of DefaultMintArguments ''royaltyRecipient'')"
    by (rule conjunct1)
  then have 3: "map_of (createPremint_tokenConfig example_tables ?api ?a
      [(''tokenURI'', JStr ''ipfs://t''), (''royaltyRecipient'', JStr ''0xb0b'')]) ''royaltyRecipient''
      = Some (JStr ''0xb0b'')"
    by simp
  from 1 2 3 show ?thesis by blast
qed

section \<open>Contract addresses\<close>

text \<open>
  C9, as the code has it. Both getters read the entry of their table for chain id 999,
  the Zora test network, whichever chain the instance was constructed for.
\<close>

theorem addresses_indexed_by_999:
  "PreminterAPI c = Inr this \<Longrightarrow>
   getExecutorAddress gen this =
     address_at (zoraCreator1155PremintExecutorImplAddress gen) (chain_id zoraTestnet)
   \<and> getFixedPriceMinterAddress gen this =
     address_at (zoraCreatorFixedPriceSaleStrategyAddress gen) (chain_id zoraTestnet)"
  by (simp add: getExecutorAddress_def getFixedPriceMinterAddress_def zoraTestnet_def)

theorem addresses_indexed_by_999_witness:
  "\<exists>this. PreminterAPI zora = Inr this
     \<and> getExecutorAddress example_tables this = JStr ''0x1111111111111111111111111111111111111111''
     \<and> getFixedPriceMinterAddress example_tables this =
         JStr ''0x3333333333333333333333333333333333333333''"
proof -
  obtain this where t: "PreminterAPI zora = Inr this"
    using PreminterAPI_supported [of zora] by (auto simp: zora_def)
  from addresses_indexed_by_999 [OF t, of example_tables] show ?thesis
    using t by (simp add: address_at_def example_tables_def zoraTestnet_def)
qed

text \<open>
  C9, as stated, fails: with tables that hold different deployments for the test network
  and the main network, an instance constructed for the main network (\<^verbatim>\<open>zora\<close>, chain id
  7777777) returns the addresses of the test network, not those of its own chain.
\<close>

theorem mainnet_instance_uses_testnet_addresses:
  "\<exists>this. PreminterAPI zora = Inr this \<and> chain_id (chain this) = 7777777
     \<and> getExecutorAddress example_tables this = JStr ''0x1111111111111111111111111111111111111111''
     \<and> address_at (zoraCreator1155PremintExecutorImplAddress example_tables) (chain_id (chain this))
         = JStr ''0x2222222222222222222222222222222222222222''
     \<and> getFixedPriceMinterAddress example_tables this =
         JStr ''0x3333333333333333333333333333333333333333''
     \<and> address_at (zoraCreatorFixedPriceSaleStrategyAddress example_tables) (chain_id (chain this))
         = JStr ''0x4444444444444444444444444444444444444444''"
  by (simp add: PreminterAPI_def networkConfigByChain_def zora_def zoraTestnet_def foundry_def
      getExecutorAddress_def getFixedPriceMinterAddress_def address_at_def example_tables_def)

section \<open>Executing a premint\<close>

text \<open>
  C5. For every \<open>quantityToMint\<close>, the \<^verbatim>\<open>premint\<close> call that \<^verbatim>\<open>executePremintWithWallet\<close>
  builds carries the value \<open>quantityToMint * 777000000000000\<close>. Without a public client
  the wallet is given that call directly. With one, that call is simulated first, and
  the wallet is given the request that the simulation returns for it (viem returns the
  parameters it was called with); a failed simulation ends the operation with no write.
  For \<open>quantityToMint = 3\<close> the value is \<open>2331000000000000\<close>.
\<close>

theorem premint_call_value:
  assumes "PreminterAPI c = Inr this"
    and "convertPremint (premint data) = Inr converted"
  shows
    "let call = (\<lambda>ch.
           \<lparr>call_account = (case acct of None \<Rightarrow> account wallet | Some a \<Rightarrow> Some a),
            call_value = quantityToMint * 777000000000000,
            call_chain = ch, call_functionName = ''premint'',
            call_address = getExecutorAddress gen this,
            call_args = (collection data, converted, signature data, quantityToMint, mintComment)\<rparr>)
     in executePremintWithWallet gen this data acct wallet quantityToMint mintComment None =
          ([WriteContract (call (Some c))], writeContract wallet (call (Some c)))
      \<and> (\<forall>client request.
            simulateContract client (call None) = Inr request \<longrightarrow>
            executePremintWithWallet gen this data acct wallet quantityToMint mintComment
              (Some client) =
              ([SimulateContract (call None), WriteContract request], writeContract wallet request))
      \<and> (\<forall>client e.
            simulateContract client (call None) = Inl e \<longrightarrow>
            executePremintWithWallet gen this data acct wallet quantityToMint mintComment
              (Some client) =
              ([SimulateContract (call None)], Inl e))"
proof -
  from assms(1) have r: "rewardPerToken this = 777000000000000" and ch: "chain this = c"
    by (auto simp: PreminterAPI_def split: option.splits)
  show ?thesis
    by (simp add: executePremintWithWallet_def Let_def assms(2) r ch io_bind_def io_lift_def
        await_def)
qed

theorem premint_call_value_witness:
  "\<exists>call hash. executePremintWithWallet example_tables
       \<lparr>network = \<lparr>chainId = 31337, zoraPathChainName = ''zora'',
                    zoraBackendChainName = ''ZORA-TESTNET'', isTestnet = True\<rparr>,
        chain = foundry, rewardPerToken = 777000000000000\<rparr>
       example_record None example_wallet 3 ''gm'' (Some (example_client True))
     = ([SimulateContract call, WriteContract call], Inr hash)
     \<and> call_value call = 2331000000000000"
proof -
  let ?api = "\<lparr>network = \<lparr>chainId = 31337, zoraPathChainName = ''zora'',
                    zoraBackendChainName = ''ZORA-TESTNET'', isTestnet = True\<rparr>,
        chain = foundry, rewardPerToken = 777000000000000\<rparr>"
  have a: "PreminterAPI foundry = Inr ?api"
    by (simp add: PreminterAPI_def networkConfigByChain_def zora_def zoraTestnet_def foundry_def
        ZORA_TESTNET_def)
  have b: "convertPremint (premint example_record) = Inr example_config"
    by (simp add: convertPremint_def example_record_def example_wire_def example_config_def
        getProp_def ebind_def object_literal_def StringToBigInt_def trim_def is_white_space_def
        parse_nat_def digit_val_def)
  note t = premint_call_value [OF a b, where acct = None and wallet = example_wallet
      and quantityToMint = 3 and gen = example_tables and mintComment = "''gm''"]
  let ?call = "\<lparr>call_account = account example_wallet,
            call_value = 3 * 777000000000000,
            call_chain = None, call_functionName = ''premint'',
            call_address = getExecutorAddress example_tables ?api,
            call_args = (collection example_record, example_config, signature example_record, 3, ''gm'')\<rparr>"
  from t have "\<forall>client request.
            simulateContract client ?call = Inr request \<longrightarrow>
            executePremintWithWallet example_tables ?api example_record None example_wallet 3 ''gm''
              (Some client) =
              ([SimulateContract ?call, WriteContract request], writeContract example_wallet request)"
    by (simp add: Let_def)
  moreover have "simulateContract (example_client True) ?call = Inr ?call"
    by (simp add: example_client_def)
  ultimately have "executePremintWithWallet example_tables ?api example_record None example_wallet 3 ''gm''
              (Some (example_client True)) =
              ([SimulateContract ?call, WriteContract ?call], writeContract example_wallet ?call)"
    by blast
  moreover have "writeContract example_wallet ?call = Inr ''0x7a5c''"
    by (simp add: example_wallet_def)
  moreover have "call_value ?call = 2331000000000000" by simp
  ultimately show ?thesis by (intro exI [of _ ?call] exI [of _ "''0x7a5c''"]) simp
qed

section \<open>Creating a premint\<close>

lemma io_bind_simps:
  "io_bind (io_return x) f = f x"
  "io_bind (io_throw e) f = ([], Inl e)"
  "io_bind (io_lift (Inr x)) f = f x"
  "io_bind (io_lift (Inl e)) f = ([], Inl e)"
  "io_bind (await ev (Inr x)) f = (ev # fst (f x), snd (f x))"
  "io_bind (await ev (Inl e)) f = ([ev], Inl e)"
  by (simp_all add: io_bind_def io_return_def io_throw_def io_lift_def await_def
      split: prod.splits)

lemma lower_char_changes: "is_upper_case c \<Longrightarrow> lower_char c \<noteq> c"
proof
  assume u: "is_upper_case c" and "lower_char c = c"
  then have "char_of (of_char c + 32 :: nat) = c" by (simp add: lower_char_def)
  then have "of_char (char_of (of_char c + 32 :: nat)) = (of_char c :: nat)" by simp
  then have "(of_char c + 32) mod 256 = (of_char c :: nat)" by (simp only: of_char_of)
  moreover from u have "(of_char c :: nat) \<le> 222" by (auto simp: is_upper_case_def Let_def)
  ultimately show False by simp
qed

lemma toLowerCase_changes:
  assumes "\<exists>c \<in> set s. is_upper_case c"
  shows "toLowerCase s \<noteq> s"
proof
  assume "toLowerCase s = s"
  then have "map lower_char s = map (\<lambda>c. c) s" by (simp add: toLowerCase_def)
  then have "\<forall>c \<in> set s. lower_char c = c" by (simp only: map_eq_conv)
  with assms show False using lower_char_changes by blast
qed

lemma get_eq:
  "get fetch path =
     ([Fetch (GET path)], case fetch (GET path) of Inl e \<Rightarrow> Inl e | Inr r \<Rightarrow> json r)"
  by (cases "fetch (GET path)") (simp_all add: get_def io_bind_simps io_lift_def)

lemma createPremint_uid_explicit:
  "truthy (optional_prop es ''uid'') \<Longrightarrow>
   createPremint_uid fetch this a es = ([], Inr (optional_prop es ''uid''))"
  by (simp add: createPremint_uid_def Let_def io_bind_def io_return_def)

lemma createPremint_uid_fetched:
  assumes "\<not> truthy (optional_prop es ''uid'')"
  shows "createPremint_uid fetch this a es =
     ([Fetch (GET (ZORA_API_BASE @ ''signature/'' @ zoraBackendChainName (network this) @ ''/''
                      @ toLowerCase a @ ''/next_uid''))],
      case fetch (GET (ZORA_API_BASE @ ''signature/'' @ zoraBackendChainName (network this) @ ''/''
                      @ toLowerCase a @ ''/next_uid'')) of
        Inl e \<Rightarrow> Inl e
      | Inr r \<Rightarrow>
          (case json r of
             Inl e \<Rightarrow> Inl e
           | Inr body \<Rightarrow>
               (case next_uid_of body of
                  Inl e \<Rightarrow> Inl e
                | Inr u \<Rightarrow> if truthy u then Inr u
                           else Inl (Error ''UID is missing but required''))))"
  using assms
  by (simp add: createPremint_uid_def Let_def get_eq io_bind_def io_lift_def io_throw_def
      io_return_def split: sum.splits)

lemma createPremint_uid_no_post: "filter is_post (fst (createPremint_uid fetch this a es)) = []"
  by (cases "truthy (optional_prop es ''uid'')")
     (simp_all add: createPremint_uid_explicit createPremint_uid_fetched)

lemma createPremint_verify_invalid:
  "readContract_isValidSignature client ex c p s = Inr (False, ca, rs) \<Longrightarrow>
   createPremint_verify client ex c p s True =
     ([ReadIsValidSignature ex c p s], Inl (Error ''Invalid signature''))"
  by (simp add: createPremint_verify_def io_bind_simps io_throw_def)

lemma createPremint_verify_valid:
  "readContract_isValidSignature client ex c p s = Inr (True, ca, rs) \<Longrightarrow>
   createPremint_verify client ex c p s True = ([ReadIsValidSignature ex c p s], Inr ())"
  by (simp add: createPremint_verify_def io_bind_simps io_return_def)

lemma createPremint_verify_failed:
  "readContract_isValidSignature client ex c p s = Inl e \<Longrightarrow>
   createPremint_verify client ex c p s True = ([ReadIsValidSignature ex c p s], Inl e)"
  by (simp add: createPremint_verify_def io_bind_simps)

lemma createPremint_verify_skipped:
  "createPremint_verify client ex c p s False = ([], Inr ())"
  by (simp add: createPremint_verify_def io_return_def)



lemma createPremint_address_failed:
  assumes "readContract_getContractAddress
             (case pc of None \<Rightarrow> cpc (chain this) | Some c \<Rightarrow> c)
             (getExecutorAddress gen this) coll = Inl e"
  shows "createPremint fetch cpc gen this acct coll mint pc wallet es cs =
           ([ReadGetContractAddress (getExecutorAddress gen this) coll], Inl e)"
  using assms by (simp add: createPremint_def Let_def io_bind_simps)

text \<open>
  A run of \<^verbatim>\<open>createPremint\<close> once the collection address is known, stage by stage: the
  calls made so far and the result, for each stage that can fail.
\<close>

lemma createPremint_run:
  assumes "readContract_getContractAddress
             (case pc of None \<Rightarrow> cpc (chain this) | Some c \<Rightarrow> c)
             (getExecutorAddress gen this) coll = Inr a"
  shows "createPremint fetch cpc gen this acct coll mint pc wallet es cs =
     (let client = (case pc of None \<Rightarrow> cpc (chain this) | Some c \<Rightarrow> c);
          U = createPremint_uid fetch this a es
      in case snd U of
           Inl e \<Rightarrow> (ReadGetContractAddress (getExecutorAddress gen this) coll # fst U, Inl e)
         | Inr u \<Rightarrow>
            (let d0 = optional_prop es ''deleted'';
                 p = \<lparr>tokenConfig = createPremint_tokenConfig gen this acct mint, uid = u,
                      version = 1, deleted = (if truthy d0 then d0 else JBool False)\<rparr>;
                 td = \<lparr>typed_verifyingContract = a, typed_premintConfig = p,
                       typed_chainId = chain_id (chain this)\<rparr>
             in case signTypedData wallet acct td of
                  Inl e \<Rightarrow>
                    (ReadGetContractAddress (getExecutorAddress gen this) coll # fst U
                       @ [SignTypedData acct td], Inl e)
                | Inr s \<Rightarrow>
                   (let V = createPremint_verify client (getExecutorAddress gen this) coll p s
                              (case cs of None \<Rightarrow> True | Some b \<Rightarrow> b)
                    in case snd V of
                         Inl e \<Rightarrow>
                           (ReadGetContractAddress (getExecutorAddress gen this) coll # fst U
                              @ SignTypedData acct td # fst V, Inl e)
                       | Inr _ \<Rightarrow>
                          (let S = createPremint_submit fetch this coll p s
                           in (ReadGetContractAddress (getExecutorAddress gen this) coll # fst U
                                 @ SignTypedData acct td # fst V @ fst S,
                               case snd S of
                                 Inl e \<Rightarrow> Inl e
                               | Inr r \<Rightarrow>
                                   Inr \<lparr>url = ''https://''
                                          @ (if isTestnet (network this) then ''testnet.'' else [])
                                          @ ''zora.co/collect:'' @ zoraPathChainName (network this)
                                          @ '':'' @ a @ ''/premint-'' @ ToString u,
                                        result_uid = u, newContractAddress = a,
                                        result_premint = r\<rparr>)))))"
  unfolding createPremint_def Let_def assms io_bind_simps
  by (simp add: prod_eq_iff fst_io_bind snd_io_bind split: sum.splits)

lemma createPremint_trace_fetched:
  assumes "readContract_getContractAddress
             (case pc of None \<Rightarrow> cpc (chain this) | Some c \<Rightarrow> c)
             (getExecutorAddress gen this) coll = Inr a"
    and "\<not> truthy (optional_prop es ''uid'')"
  shows "\<exists>rest. fst (createPremint fetch cpc gen this acct coll mint pc wallet es cs) =
     [ReadGetContractAddress (getExecutorAddress gen this) coll,
      Fetch (GET (ZORA_API_BASE @ ''signature/'' @ zoraBackendChainName (network this) @ ''/''
                    @ toLowerCase a @ ''/next_uid''))] @ rest"
proof -
  note run = createPremint_run [where pc = pc and cpc = cpc and this = this and gen = gen
        and coll = coll and a = a and fetch = fetch and acct = acct and mint = mint
        and wallet = wallet and es = es and cs = cs, OF assms(1)]
  show ?thesis
    by (simp add: run createPremint_uid_fetched [OF assms(2)] Let_def split: sum.splits)
qed

lemma example_api_constructed: "PreminterAPI foundry = Inr example_api"
  by (simp add: PreminterAPI_def networkConfigByChain_def zora_def zoraTestnet_def foundry_def
      ZORA_TESTNET_def example_api_def)

lemma example_address:
  "readContract_getContractAddress (case None of None \<Rightarrow> example_client v | Some c \<Rightarrow> c)
     (getExecutorAddress example_tables example_api) example_collection =
   Inr ''0xAbCdEf0123456789aBcDeF0123456789AbCdEf01''"
  by (simp add: example_client_def)

lemma example_lower:
  "toLowerCase ''0xAbCdEf0123456789aBcDeF0123456789AbCdEf01'' =
     ''0xabcdef0123456789abcdef0123456789abcdef01''"
  by code_simp

lemma createPremint_verify_trace:
  "fst (createPremint_verify client ex c p s True) = [ReadIsValidSignature ex c p s]"
  by (simp add: createPremint_verify_def fst_io_bind split: sum.splits)

lemma createPremint_uid_no_verification:
  "filter is_verification (fst (createPremint_uid fetch this a es)) = []"
  by (cases "truthy (optional_prop es ''uid'')")
     (simp_all add: createPremint_uid_explicit createPremint_uid_fetched)

lemma picky_run:
  "\<exists>path p td.
     createPremint (example_fetch (JNum 7)) (\<lambda>c. picky_client) example_tables example_api
       ''0x70997970C51812dc3A010C7d01b50e0d17dc79C8'' example_collection
       [(''tokenURI'', JStr ''ipfs://t'')] None example_wallet None None =
     ([ReadGetContractAddress (getExecutorAddress example_tables example_api) example_collection,
       Fetch (GET path),
       SignTypedData ''0x70997970C51812dc3A010C7d01b50e0d17dc79C8'' td,
       ReadIsValidSignature (getExecutorAddress example_tables example_api) example_collection p
         ''0x5157''],
      Inl (Error ''Invalid signature''))"
  apply (simp add: createPremint_run [where a = "''0xAbCdEf0123456789aBcDeF0123456789AbCdEf01''"] picky_client_def)
  apply (simp add: Let_def createPremint_uid_fetched optional_prop_def example_fetch_def getProp_def)
  apply (simp add: example_wallet_def createPremint_verify_invalid)
  done

text \<open>
  C7. With the signature check enabled (the default, or \<^verbatim>\<open>checkSignature: true\<close>), when
  the chain interface answers the verification that the run makes with \<open>isValid = false\<close>,
  the operation fails and no POST request to the registry is among the calls it made.
  When the verification is reached, it is the last call made and the failure is the
  error \<^verbatim>\<open>Invalid signature\<close>; else an earlier step has failed with its own error. What
  the chain interface would answer to any other verification does not matter.
\<close>

theorem invalid_signature_aborts_before_submission:
  assumes "cs \<in> {None, Some True}"
    and "\<And>ex c p s.
           ReadIsValidSignature ex c p s
             \<in> set (fst (createPremint fetch cpc gen this acct coll mint pc wallet es cs)) \<Longrightarrow>
           \<exists>ca rs.
             readContract_isValidSignature (case pc of None \<Rightarrow> cpc (chain this) | Some c \<Rightarrow> c)
               ex c p s = Inr (False, ca, rs)"
  shows "filter is_post (fst (createPremint fetch cpc gen this acct coll mint pc wallet es cs)) = []
    \<and> (\<exists>e. snd (createPremint fetch cpc gen this acct coll mint pc wallet es cs) = Inl e)
    \<and> (filter is_verification
          (fst (createPremint fetch cpc gen this acct coll mint pc wallet es cs)) \<noteq> [] \<longrightarrow>
        snd (createPremint fetch cpc gen this acct coll mint pc wallet es cs) =
          Inl (Error ''Invalid signature'')
        \<and> is_verification
            (last (fst (createPremint fetch cpc gen this acct coll mint pc wallet es cs))))"
proof -
  let ?run = "createPremint fetch cpc gen this acct coll mint pc wallet es cs"
  let ?ex = "getExecutorAddress gen this"
  let ?client = "case pc of None \<Rightarrow> cpc (chain this) | Some c \<Rightarrow> c"
  have cs: "(case cs of None \<Rightarrow> True | Some b \<Rightarrow> b) = True"
    using assms(1) by auto
  show ?thesis
  proof (cases "readContract_getContractAddress ?client ?ex coll")
    case (Inl e)
    then have "?run = ([ReadGetContractAddress ?ex coll], Inl e)"
      by (rule createPremint_address_failed)
    then show ?thesis by simp
  next
    case (Inr a)
    note run = createPremint_run [where pc = pc and cpc = cpc and this = this and gen = gen
        and coll = coll and a = a and fetch = fetch and acct = acct and mint = mint
        and wallet = wallet and es = es and cs = cs, OF Inr, unfolded cs]
    let ?U = "createPremint_uid fetch this a es"
    have U: "filter is_post (fst ?U) = []" by (rule createPremint_uid_no_post)
    have Uv: "filter is_verification (fst ?U) = []" by (rule createPremint_uid_no_verification)
    show ?thesis
    proof (cases "snd ?U")
      case (Inl e)
      then show ?thesis by (simp add: run Let_def U Uv)
    next
      case u: (Inr u)
      let ?p = "\<lparr>tokenConfig = createPremint_tokenConfig gen this acct mint, uid = u,
                 version = 1,
                 deleted = (if truthy (optional_prop es ''deleted'')
                            then optional_prop es ''deleted'' else JBool False)\<rparr>"
      let ?td = "\<lparr>typed_verifyingContract = a, typed_premintConfig = ?p,
                  typed_chainId = chain_id (chain this)\<rparr>"
      show ?thesis
      proof (cases "signTypedData wallet acct ?td")
        case (Inl e)
        then show ?thesis by (simp add: run Let_def u U Uv)
      next
        case s: (Inr s)
        have "ReadIsValidSignature ?ex coll ?p s \<in> set (fst ?run)"
          by (simp add: run Let_def u s createPremint_verify_trace split: sum.splits)
        then obtain ca rs where
          "readContract_isValidSignature ?client ?ex coll ?p s = Inr (False, ca, rs)"
          using assms(2) by blast
        then have V: "createPremint_verify ?client ?ex coll ?p s True =
            ([ReadIsValidSignature ?ex coll ?p s], Inl (Error ''Invalid signature''))"
          by (rule createPremint_verify_invalid)
        show ?thesis by (simp add: run Let_def u s V U Uv)
      qed
    qed
  qed
qed

theorem invalid_signature_aborts_before_submission_witness:
  "filter is_post (fst (createPremint (example_fetch (JNum 7)) (\<lambda>c. picky_client)
     example_tables example_api
     ''0x70997970C51812dc3A010C7d01b50e0d17dc79C8'' example_collection
     [(''tokenURI'', JStr ''ipfs://t'')] None example_wallet None None)) = []
   \<and> snd (createPremint (example_fetch (JNum 7)) (\<lambda>c. picky_client)
     example_tables example_api
     ''0x70997970C51812dc3A010C7d01b50e0d17dc79C8'' example_collection
     [(''tokenURI'', JStr ''ipfs://t'')] None example_wallet None None)
     = Inl (Error ''Invalid signature'')
   \<and> readContract_isValidSignature picky_client
         (getExecutorAddress example_tables example_api) example_collection example_config
         ''0x0000'' =
       Inr (True, ''0xAbCdEf0123456789aBcDeF0123456789AbCdEf01'',
            ''0x70997970C51812dc3A010C7d01b50e0d17dc79C8'')"
proof -
  let ?run = "createPremint (example_fetch (JNum 7)) (\<lambda>c. picky_client)
     example_tables example_api
     ''0x70997970C51812dc3A010C7d01b50e0d17dc79C8'' example_collection
     [(''tokenURI'', JStr ''ipfs://t'')] None example_wallet None None"
  have v: "\<exists>ca rs. readContract_isValidSignature
      (case None of None \<Rightarrow> picky_client | Some c \<Rightarrow> c) ex c p s = Inr (False, ca, rs)"
    if "ReadIsValidSignature ex c p s \<in> set (fst ?run)" for ex c p s
  proof -
    from picky_run that have "s = ''0x5157''" by auto
    then show ?thesis by (simp add: picky_client_def)
  qed
  have d: "None \<in> {None, Some True}" by simp
  note t = invalid_signature_aborts_before_submission [where cs = None and pc = None
      and cpc = "\<lambda>c. picky_client" and this = example_api
      and fetch = "example_fetch (JNum 7)" and gen = example_tables
      and acct = "''0x70997970C51812dc3A010C7d01b50e0d17dc79C8''" and coll = example_collection
      and mint = "[(''tokenURI'', JStr ''ipfs://t'')]" and wallet = example_wallet and es = None,
      OF d v]
  from picky_run have n: "filter is_verification (fst ?run) \<noteq> []" by auto
  have a: "readContract_isValidSignature picky_client
         (getExecutorAddress example_tables example_api) example_collection example_config
         ''0x0000'' =
       Inr (True, ''0xAbCdEf0123456789aBcDeF0123456789AbCdEf01'',
            ''0x70997970C51812dc3A010C7d01b50e0d17dc79C8'')"
    by (simp add: picky_client_def)
  from t n a show ?thesis by blast
qed




text \<open>
  C10. For an address with an upper-case character, \<^verbatim>\<open>getPremintData\<close> requests the record
  at a path that holds the address as it was given, while the \<^verbatim>\<open>next_uid\<close> request of
  \<^verbatim>\<open>createPremint\<close> for the collection at that address holds the lower-cased address, which
  is a different string: the two paths name different directories of the registry.
\<close>

theorem record_path_keeps_case:
  assumes "\<exists>c \<in> set address. is_upper_case c"
    and "readContract_getContractAddress
             (case pc of None \<Rightarrow> cpc (chain this) | Some c \<Rightarrow> c)
             (getExecutorAddress gen this) coll = Inr address"
    and "\<not> truthy (optional_prop es ''uid'')"
  shows "fst (getPremintData fetch this address n) =
           [Fetch (GET (ZORA_PREMINT_API_BASE @ ''signature/''
                          @ zoraBackendChainName (network this) @ ''/'' @ address @ ''/''
                          @ int_toString n))]
    \<and> (\<exists>rest. fst (createPremint fetch cpc gen this acct coll mint pc wallet es cs) =
          [ReadGetContractAddress (getExecutorAddress gen this) coll,
           Fetch (GET (ZORA_API_BASE @ ''signature/'' @ zoraBackendChainName (network this)
                         @ ''/'' @ toLowerCase address @ ''/next_uid''))] @ rest)
    \<and> toLowerCase address \<noteq> address
    \<and> ZORA_PREMINT_API_BASE @ ''signature/'' @ zoraBackendChainName (network this) @ ''/''
          @ address
       \<noteq> ZORA_API_BASE @ ''signature/'' @ zoraBackendChainName (network this) @ ''/''
          @ toLowerCase address"
proof -
  have 1: "fst (getPremintData fetch this address n) =
           [Fetch (GET (ZORA_PREMINT_API_BASE @ ''signature/''
                          @ zoraBackendChainName (network this) @ ''/'' @ address @ ''/''
                          @ int_toString n))]"
    by (simp add: getPremintData_def get_eq)
  have 2: "\<exists>rest. fst (createPremint fetch cpc gen this acct coll mint pc wallet es cs) =
          [ReadGetContractAddress (getExecutorAddress gen this) coll,
           Fetch (GET (ZORA_API_BASE @ ''signature/'' @ zoraBackendChainName (network this)
                         @ ''/'' @ toLowerCase address @ ''/next_uid''))] @ rest"
    by (rule createPremint_trace_fetched [where pc = pc and cpc = cpc and this = this
          and gen = gen and coll = coll and a = address and es = es, OF assms(2,3)])
  have 3: "toLowerCase address \<noteq> address"
    by (rule toLowerCase_changes [OF assms(1)])
  then have 4: "ZORA_PREMINT_API_BASE @ ''signature/'' @ zoraBackendChainName (network this) @ ''/''
          @ address
       \<noteq> ZORA_API_BASE @ ''signature/'' @ zoraBackendChainName (network this) @ ''/''
          @ toLowerCase address"
    by (auto simp add: ZORA_PREMINT_API_BASE_def ZORA_API_BASE_def)
  from 1 2 3 4 show ?thesis by blast
qed

theorem record_path_keeps_case_witness:
  "fst (getPremintData (example_fetch (JNum 7)) example_api
          ''0xAbCdEf0123456789aBcDeF0123456789AbCdEf01'' 1) =
     [Fetch (GET ''https://api.zora.co/premint/signature/ZORA-TESTNET/0xAbCdEf0123456789aBcDeF0123456789AbCdEf01/1'')]
   \<and> (\<exists>rest. fst (createPremint (example_fetch (JNum 7)) (\<lambda>c. example_client True)
        example_tables example_api ''0x70997970C51812dc3A010C7d01b50e0d17dc79C8''
        example_collection [(''tokenURI'', JStr ''ipfs://t'')] None example_wallet None None) =
      [ReadGetContractAddress (JStr ''0x1111111111111111111111111111111111111111'')
         example_collection,
       Fetch (GET ''https://api.zora.co/premint/signature/ZORA-TESTNET/0xabcdef0123456789abcdef0123456789abcdef01/next_uid'')]
      @ rest)"
proof -
  have u: "\<exists>c \<in> set ''0xAbCdEf0123456789aBcDeF0123456789AbCdEf01''. is_upper_case c"
    by (simp add: is_upper_case_def)
  have f: "\<not> truthy (optional_prop None ''uid'')"
    by (simp add: optional_prop_def)
  note t = record_path_keeps_case [where pc = None and cpc = "\<lambda>c. example_client True"
      and this = example_api and gen = example_tables and coll = example_collection
      and fetch = "example_fetch (JNum 7)"
      and acct = "''0x70997970C51812dc3A010C7d01b50e0d17dc79C8''"
      and mint = "[(''tokenURI'', JStr ''ipfs://t'')]" and wallet = example_wallet
      and es = None and cs = None and n = 1
      and address = "''0xAbCdEf0123456789aBcDeF0123456789AbCdEf01''",
      OF u example_address f]
  have p: "ZORA_API_BASE @ ''signature/'' @ zoraBackendChainName (network example_api) @ ''/''
      @ toLowerCase ''0xAbCdEf0123456789aBcDeF0123456789AbCdEf01'' @ ''/next_uid'' =
    ''https://api.zora.co/premint/signature/ZORA-TESTNET/0xabcdef0123456789abcdef0123456789abcdef01/next_uid''"
    by (simp add: example_lower ZORA_API_BASE_def example_api_def)
  have q: "ZORA_PREMINT_API_BASE @ ''signature/'' @ zoraBackendChainName (network example_api)
      @ ''/'' @ ''0xAbCdEf0123456789aBcDeF0123456789AbCdEf01'' @ ''/'' @ int_toString 1 =
    ''https://api.zora.co/premint/signature/ZORA-TESTNET/0xAbCdEf0123456789aBcDeF0123456789AbCdEf01/1''"
    by (simp add: ZORA_PREMINT_API_BASE_def example_api_def int_toString_def decimal.simps
        digit_char_def)
  have e: "getExecutorAddress example_tables example_api =
      JStr ''0x1111111111111111111111111111111111111111''"
    by (simp add: getExecutorAddress_def address_at_def example_tables_def)
  from t show ?thesis unfolding p q e by blast
qed

end
